theory Spec2Isabelle
  imports Complex_Main
begin

section \<open>Python values, exceptions and the math module\<close>

text \<open>
  The library \<^verbatim>\<open>geo.py\<close> is a class \<^verbatim>\<open>Geo\<close> of eleven stateless methods over
  Python floats. Floats are idealised as real numbers: there is no rounding, no NaN and
  no infinity, so \<^verbatim>\<open>math.isnan\<close> and \<^verbatim>\<open>math.isinf\<close> are constantly false. Every
  exception the code can raise is a value: the two range exceptions of the module and
  the two exceptions the operators and the \<^verbatim>\<open>math\<close> functions raise on finite arguments
  (\<^verbatim>\<open>ValueError\<close> for a domain error, \<^verbatim>\<open>ZeroDivisionError\<close> for \<^verbatim>\<open>/\<close> and \<^verbatim>\<open>%\<close>
  by zero).
\<close>

datatype pyexn =
  LatitudeRangeException | LongitudeRangeException | ValueError | ZeroDivisionError

text \<open>
  What a method returns: the integers \<^verbatim>\<open>0\<close> and \<^verbatim>\<open>1\<close> the code uses as sentinels,
  a float, or a list of floats.
\<close>

datatype pyval = PyInt int | PyFloat real | PyList "real list"

text \<open>Sequencing of computations that may raise: the first exception wins.\<close>

definition exn_bind :: "pyexn + 'a \<Rightarrow> ('a \<Rightarrow> pyexn + 'b) \<Rightarrow> pyexn + 'b" where
  "exn_bind m f = (case m of Inl ex \<Rightarrow> Inl ex | Inr v \<Rightarrow> f v)"

text \<open>
  The operators \<^verbatim>\<open>/\<close> and \<^verbatim>\<open>%\<close> on floats. A division by a non-zero literal
  (\<^verbatim>\<open>2\<close>, \<^verbatim>\<open>2.0\<close>, \<^verbatim>\<open>4\<close>, \<^verbatim>\<open>R\<close>) cannot raise and is written \<open>/\<close> below.
  Python's \<^verbatim>\<open>%\<close> takes the sign of the divisor: \<open>x - y * \<lfloor>x / y\<rfloor>\<close>.
\<close>

definition py_div :: "real \<Rightarrow> real \<Rightarrow> pyexn + real" where
  "py_div x y = (if y = 0 then Inl ZeroDivisionError else Inr (x / y))"

definition py_mod :: "real \<Rightarrow> real \<Rightarrow> pyexn + real" where
  "py_mod x y = (if y = 0 then Inl ZeroDivisionError else Inr (x - y * of_int \<lfloor>x / y\<rfloor>))"

text \<open>
  \<^verbatim>\<open>round(x, 2)\<close>: the nearest multiple of \<open>1/100\<close>, a tie going to the even one
  as in Python 3 (Python 2 rounds a tie away from zero; no theorem below depends on ties).
\<close>

definition py_round :: "real \<Rightarrow> int" where
  "py_round x =
     (let f = \<lfloor>x\<rfloor>; r = x - of_int f
      in if r < 1 / 2 then f else if 1 / 2 < r then f + 1 else if even f then f else f + 1)"

definition py_round2 :: "real \<Rightarrow> real" where
  "py_round2 x = of_int (py_round (x * 100)) / 100"

text \<open>
  The \<^verbatim>\<open>math\<close> module. \<^verbatim>\<open>sin\<close>, \<^verbatim>\<open>cos\<close>, \<^verbatim>\<open>tan\<close>, \<^verbatim>\<open>atan2\<close>, \<^verbatim>\<open>fabs\<close>, \<^verbatim>\<open>radians\<close>
  and \<^verbatim>\<open>degrees\<close> accept every finite float; \<^verbatim>\<open>sqrt\<close>, \<^verbatim>\<open>asin\<close>, \<^verbatim>\<open>acos\<close> and
  \<^verbatim>\<open>log\<close> raise \<^verbatim>\<open>ValueError\<close> outside their domain. \<^verbatim>\<open>math.tan\<close> is \<open>tan\<close>; at an odd
  multiple of \<open>pi / 2\<close>, which no float is, \<open>tan\<close> is \<open>0\<close> here, and no theorem below
  depends on that value.
\<close>

definition math_radians :: "real \<Rightarrow> real" where
  "math_radians x = x * (pi / 180)"

definition math_degrees :: "real \<Rightarrow> real" where
  "math_degrees x = x * (180 / pi)"

definition math_sqrt :: "real \<Rightarrow> pyexn + real" where
  "math_sqrt x = (if x < 0 then Inl ValueError else Inr (sqrt x))"

definition math_asin :: "real \<Rightarrow> pyexn + real" where
  "math_asin x = (if x < -1 \<or> 1 < x then Inl ValueError else Inr (arcsin x))"

definition math_acos :: "real \<Rightarrow> pyexn + real" where
  "math_acos x = (if x < -1 \<or> 1 < x then Inl ValueError else Inr (arccos x))"

definition math_log :: "real \<Rightarrow> pyexn + real" where
  "math_log x = (if x \<le> 0 then Inl ValueError else Inr (ln x))"

definition math_atan2 :: "real \<Rightarrow> real \<Rightarrow> real" where
  "math_atan2 y x =
     (if 0 < x then arctan (y / x)
      else if x < 0 then (if 0 \<le> y then arctan (y / x) + pi else arctan (y / x) - pi)
      else if 0 < y then pi / 2
      else if y < 0 then - (pi / 2)
      else 0)"

definition math_isnan :: "real \<Rightarrow> bool" where
  "math_isnan x = False"

definition math_isinf :: "real \<Rightarrow> bool" where
  "math_isinf x = False"

text \<open>The mean Earth radius \<^verbatim>\<open>R = 6371.0\<close> of the methods that use it.\<close>

definition R :: real where
  "R = 6371"

section \<open>Great-circle distance\<close>

text \<open>
  Every method has the same shape: the range checks, which raise; a \<^verbatim>\<open>try\<close> block
  whose \<^verbatim>\<open>except Exception\<close> clause returns the integer \<^verbatim>\<open>1\<close>; and a \<^verbatim>\<open>return\<close>
  after the block. The function \<open>f_try\<close> is the body of the \<^verbatim>\<open>try\<close> block of method
  \<open>f\<close>, giving the variables the \<^verbatim>\<open>return\<close> needs.
\<close>

definition distance_haversine_try :: "real \<Rightarrow> real \<Rightarrow> real \<Rightarrow> real \<Rightarrow> pyexn + real" where
  "distance_haversine_try lat1 lon1 lat2 lon2 =
     (let Lat = math_radians (lat2 - lat1);
          Lon = math_radians (lon2 - lon1);
          a = sin (Lat / 2) * sin (Lat / 2) +
              cos (math_radians lat1) * cos (math_radians lat2) *
              sin (Lon / 2) * sin (Lon / 2)
      in exn_bind (math_sqrt a) (\<lambda>sa.
         exn_bind (math_sqrt (1 - a)) (\<lambda>sb.
         Inr (2 * math_atan2 sa sb))))"

definition distance_haversine :: "real \<Rightarrow> real \<Rightarrow> real \<Rightarrow> real \<Rightarrow> pyexn + pyval" where
  "distance_haversine lat1 lon1 lat2 lon2 =
     (if (lat1 > 90 \<or> lat1 < -90) \<or> (lat2 > 90 \<or> lat2 < -90) then Inl LatitudeRangeException
      else if (lon1 > 180 \<or> lon1 < -180) \<or> (lon2 > 180 \<or> lon2 < -180)
        then Inl LongitudeRangeException
      else case distance_haversine_try lat1 lon1 lat2 lon2 of
             Inl ex \<Rightarrow> Inr (PyInt 1)
           | Inr c \<Rightarrow> Inr (PyFloat (R * c)))"

definition distance_sloc_try :: "real \<Rightarrow> real \<Rightarrow> real \<Rightarrow> real \<Rightarrow> pyexn + real" where
  "distance_sloc_try lat1 lon1 lat2 lon2 =
     math_acos (sin (math_radians lat1) * sin (math_radians lat2) +
                cos (math_radians lat1) * cos (math_radians lat2) *
                cos (math_radians (lon2 - lon1)))"

definition distance_sloc :: "real \<Rightarrow> real \<Rightarrow> real \<Rightarrow> real \<Rightarrow> pyexn + pyval" where
  "distance_sloc lat1 lon1 lat2 lon2 =
     (if (lat1 > 90 \<or> lat1 < -90) \<or> (lat2 > 90 \<or> lat2 < -90) then Inl LatitudeRangeException
      else if (lon1 > 180 \<or> lon1 < -180) \<or> (lon2 > 180 \<or> lon2 < -180)
        then Inl LongitudeRangeException
      else case distance_sloc_try lat1 lon1 lat2 lon2 of
             Inl ex \<Rightarrow> Inr (PyInt 1)
           | Inr c \<Rightarrow> Inr (PyFloat (R * c)))"

section \<open>Great-circle bearings and midpoint\<close>

text \<open>
  \<^verbatim>\<open>initial_bearing\<close> and \<^verbatim>\<open>final_bearing\<close> have the same \<^verbatim>\<open>try\<close> block, written
  twice in the source; the \<^verbatim>\<open>%\<close> of the \<^verbatim>\<open>return\<close> is outside the block, so an
  exception there would reach the caller.
\<close>

definition initial_bearing_try :: "real \<Rightarrow> real \<Rightarrow> real \<Rightarrow> real \<Rightarrow> pyexn + real" where
  "initial_bearing_try lat1' lon1' lat2' lon2' =
     (let lat1 = math_radians lat1';
          lat2 = math_radians lat2';
          lon1 = math_radians lon1';
          lon2 = math_radians lon2';
          dLon = lon2 - lon1;
          y = sin dLon * cos lat2;
          x = cos lat1 * sin lat2 - sin lat1 * cos lat2 * cos dLon
      in Inr (math_atan2 y x))"

definition initial_bearing :: "real \<Rightarrow> real \<Rightarrow> real \<Rightarrow> real \<Rightarrow> pyexn + pyval" where
  "initial_bearing lat1 lon1 lat2 lon2 =
     (if (lat1 > 90 \<or> lat1 < -90) \<or> (lat2 > 90 \<or> lat2 < -90) then Inl LatitudeRangeException
      else if (lon1 > 180 \<or> lon1 < -180) \<or> (lon2 > 180 \<or> lon2 < -180)
        then Inl LongitudeRangeException
      else case initial_bearing_try lat1 lon1 lat2 lon2 of
             Inl ex \<Rightarrow> Inr (PyInt 1)
           | Inr brng \<Rightarrow>
               exn_bind (py_mod (math_degrees brng + 360) 360) (\<lambda>b. Inr (PyFloat b)))"

definition final_bearing_try :: "real \<Rightarrow> real \<Rightarrow> real \<Rightarrow> real \<Rightarrow> pyexn + real" where
  "final_bearing_try lat1' lon1' lat2' lon2' =
     (let lat1 = math_radians lat1';
          lat2 = math_radians lat2';
          lon1 = math_radians lon1';
          lon2 = math_radians lon2';
          dLon = lon2 - lon1;
          y = sin dLon * cos lat2;
          x = cos lat1 * sin lat2 - sin lat1 * cos lat2 * cos dLon
      in Inr (math_atan2 y x))"

definition final_bearing :: "real \<Rightarrow> real \<Rightarrow> real \<Rightarrow> real \<Rightarrow> pyexn + pyval" where
  "final_bearing lat1 lon1 lat2 lon2 =
     (if (lat1 > 90 \<or> lat1 < -90) \<or> (lat2 > 90 \<or> lat2 < -90) then Inl LatitudeRangeException
      else if (lon1 > 180 \<or> lon1 < -180) \<or> (lon2 > 180 \<or> lon2 < -180)
        then Inl LongitudeRangeException
      else case final_bearing_try lat1 lon1 lat2 lon2 of
             Inl ex \<Rightarrow> Inr (PyInt 1)
           | Inr brng \<Rightarrow>
               exn_bind (py_mod (math_degrees brng + 180) 360) (\<lambda>b. Inr (PyFloat b)))"

definition midpoint_try :: "real \<Rightarrow> real \<Rightarrow> real \<Rightarrow> real \<Rightarrow> pyexn + real \<times> real" where
  "midpoint_try lat1' lon1' lat2' lon2' =
     (let lat1 = math_radians lat1';
          lon1 = math_radians lon1';
          lat2 = math_radians lat2';
          lon2 = math_radians lon2';
          bx = cos lat2 * cos (lon2 - lon1);
          by = cos lat2 * sin (lon2 - lon1)
      in exn_bind (math_sqrt ((cos lat1 + bx) * (cos lat1 + bx) + by * by)) (\<lambda>s.
         let mLat = math_atan2 (sin lat1 + sin lat2) s;
             mLon = lon1 + math_atan2 by (cos lat1 + bx)
         in Inr (mLat, mLon)))"

definition midpoint :: "real \<Rightarrow> real \<Rightarrow> real \<Rightarrow> real \<Rightarrow> pyexn + pyval" where
  "midpoint lat1 lon1 lat2 lon2 =
     (if (lat1 > 90 \<or> lat1 < -90) \<or> (lat2 > 90 \<or> lat2 < -90) then Inl LatitudeRangeException
      else if (lon1 > 180 \<or> lon1 < -180) \<or> (lon2 > 180 \<or> lon2 < -180)
        then Inl LongitudeRangeException
      else case midpoint_try lat1 lon1 lat2 lon2 of
             Inl ex \<Rightarrow> Inr (PyInt 1)
           | Inr (mLat, mLon) \<Rightarrow>
               Inr (PyList [py_round2 (math_degrees mLat), py_round2 (math_degrees mLon)]))"

section \<open>Intersection of two paths\<close>

text \<open>
  The \<^verbatim>\<open>try\<close> block of \<^verbatim>\<open>intersection\<close> in three parts, on the coordinates and bearings
  already converted to radians: the angular separation \<^verbatim>\<open>d\<close>, the angles \<^verbatim>\<open>a1\<close> and
  \<^verbatim>\<open>a2\<close>, and the point \<^verbatim>\<open>lat3\<close>, \<^verbatim>\<open>lon3\<close>.
\<close>

definition intersection_d :: "real \<Rightarrow> real \<Rightarrow> real \<Rightarrow> real \<Rightarrow> pyexn + real" where
  "intersection_d lat1 lon1 lat2 lon2 =
     (let dLat = lat2 - lat1;
          dLon = lon2 - lon1
      in exn_bind (math_sqrt (sin (dLat / 2) * sin (dLat / 2) +
                              cos lat1 * cos lat2 * sin (dLon / 2) * sin (dLon / 2))) (\<lambda>s.
         exn_bind (math_asin s) (\<lambda>a.
         Inr (2 * a))))"

definition intersection_angles ::
  "real \<Rightarrow> real \<Rightarrow> real \<Rightarrow> real \<Rightarrow> real \<Rightarrow> real \<Rightarrow> real \<Rightarrow> pyexn + real \<times> real" where
  "intersection_angles lat1 lon1 brng1 lat2 lon2 brng2 d =
     exn_bind (py_div (sin lat2 - sin lat1 * cos d) (sin d * cos lat1)) (\<lambda>q1.
     exn_bind (math_acos q1) (\<lambda>f1'.
     let f1 = (if math_isnan f1' then 0 else f1')
     in exn_bind (py_div (sin lat1 - sin lat2 * cos d) (sin d * cos lat2)) (\<lambda>q2.
        exn_bind (math_acos q2) (\<lambda>f2.
        let b1 = (if sin (lon2 - lon1) > 0 then f1 else 2 * pi - f1);
            b2 = (if sin (lon2 - lon1) > 0 then 2 * pi - f2 else f2)
        in exn_bind (py_mod (brng1 - b1 + pi) (2 * pi)) (\<lambda>m1.
           exn_bind (py_mod (b2 - brng2 + pi) (2 * pi)) (\<lambda>m2.
           Inr (m1 - pi, m2 - pi)))))))"

definition intersection_point ::
  "real \<Rightarrow> real \<Rightarrow> real \<Rightarrow> real \<Rightarrow> real \<Rightarrow> real \<Rightarrow> pyexn + real \<times> real" where
  "intersection_point lat1 lon1 brng1 d a1 a2 =
     exn_bind (math_acos (- cos a1 * cos a2 + sin a1 * sin a2 * cos d)) (\<lambda>a3.
     let dx = math_atan2 (sin d * sin a1 * sin a2) (cos a2 + cos a1 * cos a3)
     in exn_bind (math_asin (sin lat1 * cos dx + cos lat1 * sin dx * cos brng1)) (\<lambda>lat3.
        let dLon13 = math_atan2 (sin brng1 * sin dx * cos lat1) (cos dx - sin lat1 * sin lat3)
        in exn_bind (py_mod (lon1 + dLon13 + pi) (2 * pi)) (\<lambda>m.
           Inr (lat3, m - pi))))"

text \<open>
  The block returns \<^verbatim>\<open>0\<close> from inside in three places; when it runs to its end the
  method returns the list after it, which cannot raise.
\<close>

definition intersection_try ::
  "real \<Rightarrow> real \<Rightarrow> real \<Rightarrow> real \<Rightarrow> real \<Rightarrow> real \<Rightarrow> pyexn + pyval" where
  "intersection_try lat1' lon1' brng1' lat2' lon2' brng2' =
     (let lat1 = math_radians lat1';
          lon1 = math_radians lon1';
          lat2 = math_radians lat2';
          lon2 = math_radians lon2';
          brng1 = math_radians brng1';
          brng2 = math_radians brng2'
      in exn_bind (intersection_d lat1 lon1 lat2 lon2) (\<lambda>d.
         if d = 0 then Inr (PyInt 0)
         else exn_bind (intersection_angles lat1 lon1 brng1 lat2 lon2 brng2 d) (\<lambda>(a1, a2).
           if sin a1 = 0 \<and> sin a2 = 0 then Inr (PyInt 0)
           else if sin a1 * sin a2 < 0 then Inr (PyInt 0)
           else exn_bind (intersection_point lat1 lon1 brng1 d a1 a2) (\<lambda>(lat3, lon3).
             Inr (PyList [math_degrees lat3, math_degrees lon3])))))"

definition intersection ::
  "real \<Rightarrow> real \<Rightarrow> real \<Rightarrow> real \<Rightarrow> real \<Rightarrow> real \<Rightarrow> pyexn + pyval" where
  "intersection lat1 lon1 brng1 lat2 lon2 brng2 =
     (if (lat1 > 90 \<or> lat1 < -90) \<or> (lat2 > 90 \<or> lat2 < -90) then Inl LatitudeRangeException
      else if (lon1 > 180 \<or> lon1 < -180) \<or> (lon2 > 180 \<or> lon2 < -180)
        then Inl LongitudeRangeException
      else case intersection_try lat1 lon1 brng1 lat2 lon2 brng2 of
             Inl ex \<Rightarrow> Inr (PyInt 1)
           | Inr v \<Rightarrow> Inr v)"

section \<open>Rhumb lines\<close>

text \<open>
  \<^verbatim>\<open>math.isinf(dLat/dPhi)\<close> divides before it tests, and the branch taken divides
  again; \<^verbatim>\<open>math.pow(x, 2)\<close> is the square.
\<close>

definition rhumb_distance_try :: "real \<Rightarrow> real \<Rightarrow> real \<Rightarrow> real \<Rightarrow> pyexn + real" where
  "rhumb_distance_try lat1' lon1' lat2' lon2' =
     (let lat1 = math_radians lat1';
          lat2 = math_radians lat2';
          lon1 = math_radians lon1';
          lon2 = math_radians lon2';
          dLat = lat2 - lat1;
          dLon = \<bar>lon2 - lon1\<bar>
      in exn_bind (py_div (tan (lat2 / 2 + pi / 4)) (tan (lat1 / 2 + pi / 4))) (\<lambda>r.
         exn_bind (math_log r) (\<lambda>dPhi.
         exn_bind (py_div dLat dPhi) (\<lambda>t.
         exn_bind (if math_isinf t then Inr (cos lat1) else py_div dLat dPhi) (\<lambda>q.
         let dLon = (if \<bar>dLon\<bar> > pi
                     then (if dLon > 0 then - (2 * pi - dLon) else 2 * pi + dLon)
                     else dLon)
         in exn_bind (math_sqrt (dLat ^ 2 + q ^ 2 * dLon ^ 2)) (\<lambda>s.
            Inr (s * R)))))))"

definition rhumb_distance :: "real \<Rightarrow> real \<Rightarrow> real \<Rightarrow> real \<Rightarrow> pyexn + pyval" where
  "rhumb_distance lat1 lon1 lat2 lon2 =
     (if (lat1 > 90 \<or> lat1 < -90) \<or> (lat2 > 90 \<or> lat2 < -90) then Inl LatitudeRangeException
      else if (lon1 > 180 \<or> lon1 < -180) \<or> (lon2 > 180 \<or> lon2 < -180)
        then Inl LongitudeRangeException
      else case rhumb_distance_try lat1 lon1 lat2 lon2 of
             Inl ex \<Rightarrow> Inr (PyInt 1)
           | Inr dist' \<Rightarrow> Inr (PyFloat dist'))"

definition rhumb_bearing_try :: "real \<Rightarrow> real \<Rightarrow> real \<Rightarrow> real \<Rightarrow> pyexn + real" where
  "rhumb_bearing_try lat1' lon1' lat2' lon2' =
     (let lat1 = math_radians lat1';
          lat2 = math_radians lat2';
          lon1 = math_radians lon1';
          lon2 = math_radians lon2';
          dLon = lon2 - lon1
      in exn_bind (py_div (tan (lat2 / 2 + pi / 4)) (tan (lat1 / 2 + pi / 4))) (\<lambda>r.
         exn_bind (math_log r) (\<lambda>dPhi.
         let dLon = (if \<bar>dLon\<bar> > pi
                     then (if dLon > 0 then - (2 * pi - dLon) else 2 * pi + dLon)
                     else dLon)
         in Inr (math_atan2 dLon dPhi))))"

definition rhumb_bearing :: "real \<Rightarrow> real \<Rightarrow> real \<Rightarrow> real \<Rightarrow> pyexn + pyval" where
  "rhumb_bearing lat1 lon1 lat2 lon2 =
     (if (lat1 > 90 \<or> lat1 < -90) \<or> (lat2 > 90 \<or> lat2 < -90) then Inl LatitudeRangeException
      else if (lon1 > 180 \<or> lon1 < -180) \<or> (lon2 > 180 \<or> lon2 < -180)
        then Inl LongitudeRangeException
      else case rhumb_bearing_try lat1 lon1 lat2 lon2 of
             Inl ex \<Rightarrow> Inr (PyInt 1)
           | Inr brng \<Rightarrow>
               exn_bind (py_mod (math_degrees brng + 360) 360) (\<lambda>b. Inr (PyFloat b)))"

definition rhumb_destination_point_try ::
  "real \<Rightarrow> real \<Rightarrow> real \<Rightarrow> real \<Rightarrow> pyexn + real \<times> real" where
  "rhumb_destination_point_try lat1' lon1' brng' dist' =
     (let d = dist' / R;
          lat1 = math_radians lat1';
          lon1 = math_radians lon1';
          brng = math_radians brng';
          lat2 = lat1 + d * cos brng;
          dLat = lat2 - lat1
      in exn_bind (py_div (tan (lat2 / 2 + pi / 4)) (tan (lat1 / 2 + pi / 4))) (\<lambda>r.
         exn_bind (math_log r) (\<lambda>dPhi.
         exn_bind (py_div dLat dPhi) (\<lambda>t.
         exn_bind (if math_isinf t then Inr (cos lat1) else py_div dLat dPhi) (\<lambda>q.
         exn_bind (py_div (d * sin brng) q) (\<lambda>dLon.
         let lat2 = (if \<bar>lat2\<bar> > pi / 2
                     then (if lat2 > 0 then pi - lat2 else - pi - lat2)
                     else lat2)
         in exn_bind (py_mod (lon1 + dLon + 3 * pi) (2 * pi)) (\<lambda>m.
            Inr (lat2, m - pi))))))))"

definition rhumb_destination_point :: "real \<Rightarrow> real \<Rightarrow> real \<Rightarrow> real \<Rightarrow> pyexn + pyval" where
  "rhumb_destination_point lat1 lon1 brng dist' =
     (if lat1 > 90 \<or> lat1 < -90 then Inl LatitudeRangeException
      else if lon1 > 180 \<or> lon1 < -180 then Inl LongitudeRangeException
      else case rhumb_destination_point_try lat1 lon1 brng dist' of
             Inl ex \<Rightarrow> Inr (PyInt 1)
           | Inr (lat2, lon2) \<Rightarrow> Inr (PyList [math_degrees lat2, math_degrees lon2]))"

text \<open>\<^verbatim>\<open>rhumb_midpoint\<close> takes two points and checks the first one only.\<close>

definition rhumb_midpoint_try :: "real \<Rightarrow> real \<Rightarrow> real \<Rightarrow> real \<Rightarrow> pyexn + real \<times> real" where
  "rhumb_midpoint_try lat1' lon1' lat2' lon2' =
     (let lat1 = math_radians lat1';
          lat2 = math_radians lat2';
          lon1 = math_radians lon1';
          lon2 = math_radians lon2';
          lat3 = (lat2 + lat1) / 2;
          f1 = tan (pi / 4 + lat1 / 2);
          f2 = tan (pi / 4 + lat2 / 2);
          f3 = tan (pi / 4 + lat3 / 2)
      in exn_bind (math_log f3) (\<lambda>l3.
         exn_bind (math_log f2) (\<lambda>l2.
         exn_bind (math_log f1) (\<lambda>l1.
         exn_bind (py_div f2 f1) (\<lambda>r.
         exn_bind (math_log r) (\<lambda>lr.
         exn_bind (py_div ((lon2 - lon1) * l3 + lon1 * l2 - lon2 * l1) lr) (\<lambda>lon3'.
         let lon3 = (if math_isnan lon3' then (lon1 + lon2) / 2 else lon3')
         in exn_bind (py_mod (lon3 + 3 * pi) (2 * pi)) (\<lambda>m.
            Inr (lat3, m - pi)))))))))"

definition rhumb_midpoint :: "real \<Rightarrow> real \<Rightarrow> real \<Rightarrow> real \<Rightarrow> pyexn + pyval" where
  "rhumb_midpoint lat1 lon1 lat2 lon2 =
     (if lat1 > 90 \<or> lat1 < -90 then Inl LatitudeRangeException
      else if lon1 > 180 \<or> lon1 < -180 then Inl LongitudeRangeException
      else case rhumb_midpoint_try lat1 lon1 lat2 lon2 of
             Inl ex \<Rightarrow> Inr (PyInt 1)
           | Inr (lat3, lon3) \<Rightarrow> Inr (PyList [math_degrees lat3, math_degrees lon3]))"

section \<open>Great-circle destination point\<close>

definition destination_point_try :: "real \<Rightarrow> real \<Rightarrow> real \<Rightarrow> real \<Rightarrow> pyexn + real \<times> real" where
  "destination_point_try lat1' lon1' brng' dist' =
     (let dist = dist' / R;
          lat1 = math_radians lat1';
          lon1 = math_radians lon1';
          brng = math_radians brng'
      in exn_bind (math_asin (sin lat1 * cos dist + cos lat1 * sin dist * cos brng)) (\<lambda>lat2.
         let lon2 = lon1 + math_atan2 (sin brng * sin dist * cos lat1)
                                      (cos dist - sin lat1 * sin lat2)
         in exn_bind (py_mod (lon2 + 3 * pi) (2 * pi)) (\<lambda>m.
            Inr (lat2, m - pi))))"

definition destination_point :: "real \<Rightarrow> real \<Rightarrow> real \<Rightarrow> real \<Rightarrow> pyexn + pyval" where
  "destination_point lat1 lon1 brng dist' =
     (if lat1 > 90 \<or> lat1 < -90 then Inl LatitudeRangeException
      else if lon1 > 180 \<or> lon1 < -180 then Inl LongitudeRangeException
      else case destination_point_try lat1 lon1 brng dist' of
             Inl ex \<Rightarrow> Inr (PyInt 1)
           | Inr (lat2, lon2) \<Rightarrow> Inr (PyList [math_degrees lat2, math_degrees lon2]))"

section \<open>The methods over an arbitrary floating-point arithmetic\<close>

text \<open>
  The definitions above compute in exact real arithmetic. The interpreter computes in
  floating point: every operation returns a rounded result, and it is the rounded
  argument that decides whether \<^verbatim>\<open>sqrt\<close>, \<^verbatim>\<open>asin\<close>, \<^verbatim>\<open>acos\<close>, \<^verbatim>\<open>log\<close>, \<^verbatim>\<open>/\<close> or
  \<^verbatim>\<open>%\<close> raises. The record \<open>arith\<close> holds the operations whose result is rounded, as
  functions on the values of the floats; comparison, negation and \<^verbatim>\<open>fabs\<close> are exact.
  A finite float is a real number; overflow is not modelled, and what \<^verbatim>\<open>math.isnan\<close>
  and \<^verbatim>\<open>math.isinf\<close> answer is left to the arithmetic. \<open>fsquare\<close> is
  \<^verbatim>\<open>math.pow(x, 2)\<close> and \<open>fround2\<close> is \<^verbatim>\<open>round(x, 2)\<close>.
\<close>

record arith =
  fadd :: "real \<Rightarrow> real \<Rightarrow> real"
  fsub :: "real \<Rightarrow> real \<Rightarrow> real"
  fmul :: "real \<Rightarrow> real \<Rightarrow> real"
  fdiv :: "real \<Rightarrow> real \<Rightarrow> real"
  fmod :: "real \<Rightarrow> real \<Rightarrow> real"
  fsquare :: "real \<Rightarrow> real"
  fsqrt :: "real \<Rightarrow> real"
  fsin :: "real \<Rightarrow> real"
  fcos :: "real \<Rightarrow> real"
  ftan :: "real \<Rightarrow> real"
  fasin :: "real \<Rightarrow> real"
  facos :: "real \<Rightarrow> real"
  fatan2 :: "real \<Rightarrow> real \<Rightarrow> real"
  flog :: "real \<Rightarrow> real"
  frad :: "real \<Rightarrow> real"
  fdeg :: "real \<Rightarrow> real"
  fround2 :: "real \<Rightarrow> real"
  fpi :: real
  fisnan :: "real \<Rightarrow> bool"
  fisinf :: "real \<Rightarrow> bool"

text \<open>The arithmetic of the definitions above: nothing is rounded.\<close>

definition exact :: arith where
  "exact =
     \<lparr>fadd = (+), fsub = (-), fmul = (*), fdiv = (/),
      fmod = (\<lambda>x y. x - y * of_int \<lfloor>x / y\<rfloor>),
      fsquare = (\<lambda>x. x ^ 2), fsqrt = sqrt, fsin = sin, fcos = cos, ftan = tan,
      fasin = arcsin, facos = arccos, fatan2 = math_atan2, flog = ln,
      frad = math_radians, fdeg = math_degrees, fround2 = py_round2, fpi = pi,
      fisnan = math_isnan, fisinf = math_isinf\<rparr>"

text \<open>
  An arithmetic with one rounding error: every sum comes out too large by
  \<open>1 / 10 ^ 16\<close>, about the last bit of a double near \<open>1\<close>.
\<close>

definition round_up :: arith where
  "round_up = exact\<lparr>fadd := (\<lambda>x y. x + y + 1 / 10 ^ 16)\<rparr>"

text \<open>The operations that raise, on the arithmetic \<open>A\<close>.\<close>

definition fp_div :: "arith \<Rightarrow> real \<Rightarrow> real \<Rightarrow> pyexn + real" where
  "fp_div A x y = (if y = 0 then Inl ZeroDivisionError else Inr (fdiv A x y))"

definition fp_mod :: "arith \<Rightarrow> real \<Rightarrow> real \<Rightarrow> pyexn + real" where
  "fp_mod A x y = (if y = 0 then Inl ZeroDivisionError else Inr (fmod A x y))"

definition fp_sqrt :: "arith \<Rightarrow> real \<Rightarrow> pyexn + real" where
  "fp_sqrt A x = (if x < 0 then Inl ValueError else Inr (fsqrt A x))"

definition fp_asin :: "arith \<Rightarrow> real \<Rightarrow> pyexn + real" where
  "fp_asin A x = (if x < -1 \<or> 1 < x then Inl ValueError else Inr (fasin A x))"

definition fp_acos :: "arith \<Rightarrow> real \<Rightarrow> pyexn + real" where
  "fp_acos A x = (if x < -1 \<or> 1 < x then Inl ValueError else Inr (facos A x))"

definition fp_log :: "arith \<Rightarrow> real \<Rightarrow> pyexn + real" where
  "fp_log A x = (if x \<le> 0 then Inl ValueError else Inr (flog A x))"

text \<open>
  The eleven methods again, \<open>f_fp A\<close> for the method \<open>f\<close>: the same statements in the
  same order, every operation taken from \<open>A\<close>.
\<close>

definition distance_haversine_try_fp ::
  "arith \<Rightarrow> real \<Rightarrow> real \<Rightarrow> real \<Rightarrow> real \<Rightarrow> pyexn + real" where
  "distance_haversine_try_fp A lat1 lon1 lat2 lon2 =
     (let Lat = frad A (fsub A lat2 lat1);
          Lon = frad A (fsub A lon2 lon1);
          a = fadd A (fmul A (fsin A (fdiv A Lat 2)) (fsin A (fdiv A Lat 2)))
                (fmul A (fmul A (fmul A (fcos A (frad A lat1)) (fcos A (frad A lat2)))
                                (fsin A (fdiv A Lon 2)))
                        (fsin A (fdiv A Lon 2)))
      in exn_bind (fp_sqrt A a) (\<lambda>sa.
         exn_bind (fp_sqrt A (fsub A 1 a)) (\<lambda>sb.
         Inr (fmul A 2 (fatan2 A sa sb)))))"

definition distance_haversine_fp ::
  "arith \<Rightarrow> real \<Rightarrow> real \<Rightarrow> real \<Rightarrow> real \<Rightarrow> pyexn + pyval" where
  "distance_haversine_fp A lat1 lon1 lat2 lon2 =
     (if (lat1 > 90 \<or> lat1 < -90) \<or> (lat2 > 90 \<or> lat2 < -90) then Inl LatitudeRangeException
      else if (lon1 > 180 \<or> lon1 < -180) \<or> (lon2 > 180 \<or> lon2 < -180)
        then Inl LongitudeRangeException
      else case distance_haversine_try_fp A lat1 lon1 lat2 lon2 of
             Inl ex \<Rightarrow> Inr (PyInt 1)
           | Inr c \<Rightarrow> Inr (PyFloat (fmul A R c)))"

definition distance_sloc_try_fp ::
  "arith \<Rightarrow> real \<Rightarrow> real \<Rightarrow> real \<Rightarrow> real \<Rightarrow> pyexn + real" where
  "distance_sloc_try_fp A lat1 lon1 lat2 lon2 =
     fp_acos A (fadd A (fmul A (fsin A (frad A lat1)) (fsin A (frad A lat2)))
                  (fmul A (fmul A (fcos A (frad A lat1)) (fcos A (frad A lat2)))
                          (fcos A (frad A (fsub A lon2 lon1)))))"

definition distance_sloc_fp ::
  "arith \<Rightarrow> real \<Rightarrow> real \<Rightarrow> real \<Rightarrow> real \<Rightarrow> pyexn + pyval" where
  "distance_sloc_fp A lat1 lon1 lat2 lon2 =
     (if (lat1 > 90 \<or> lat1 < -90) \<or> (lat2 > 90 \<or> lat2 < -90) then Inl LatitudeRangeException
      else if (lon1 > 180 \<or> lon1 < -180) \<or> (lon2 > 180 \<or> lon2 < -180)
        then Inl LongitudeRangeException
      else case distance_sloc_try_fp A lat1 lon1 lat2 lon2 of
             Inl ex \<Rightarrow> Inr (PyInt 1)
           | Inr c \<Rightarrow> Inr (PyFloat (fmul A R c)))"

definition initial_bearing_try_fp ::
  "arith \<Rightarrow> real \<Rightarrow> real \<Rightarrow> real \<Rightarrow> real \<Rightarrow> pyexn + real" where
  "initial_bearing_try_fp A lat1' lon1' lat2' lon2' =
     (let lat1 = frad A lat1';
          lat2 = frad A lat2';
          lon1 = frad A lon1';
          lon2 = frad A lon2';
          dLon = fsub A lon2 lon1;
          y = fmul A (fsin A dLon) (fcos A lat2);
          x = fsub A (fmul A (fcos A lat1) (fsin A lat2))
                (fmul A (fmul A (fsin A lat1) (fcos A lat2)) (fcos A dLon))
      in Inr (fatan2 A y x))"

definition initial_bearing_fp ::
  "arith \<Rightarrow> real \<Rightarrow> real \<Rightarrow> real \<Rightarrow> real \<Rightarrow> pyexn + pyval" where
  "initial_bearing_fp A lat1 lon1 lat2 lon2 =
     (if (lat1 > 90 \<or> lat1 < -90) \<or> (lat2 > 90 \<or> lat2 < -90) then Inl LatitudeRangeException
      else if (lon1 > 180 \<or> lon1 < -180) \<or> (lon2 > 180 \<or> lon2 < -180)
        then Inl LongitudeRangeException
      else case initial_bearing_try_fp A lat1 lon1 lat2 lon2 of
             Inl ex \<Rightarrow> Inr (PyInt 1)
           | Inr brng \<Rightarrow>
               exn_bind (fp_mod A (fadd A (fdeg A brng) 360) 360) (\<lambda>b. Inr (PyFloat b)))"

definition final_bearing_try_fp ::
  "arith \<Rightarrow> real \<Rightarrow> real \<Rightarrow> real \<Rightarrow> real \<Rightarrow> pyexn + real" where
  "final_bearing_try_fp A lat1' lon1' lat2' lon2' =
     (let lat1 = frad A lat1';
          lat2 = frad A lat2';
          lon1 = frad A lon1';
          lon2 = frad A lon2';
          dLon = fsub A lon2 lon1;
          y = fmul A (fsin A dLon) (fcos A lat2);
          x = fsub A (fmul A (fcos A lat1) (fsin A lat2))
                (fmul A (fmul A (fsin A lat1) (fcos A lat2)) (fcos A dLon))
      in Inr (fatan2 A y x))"

definition final_bearing_fp ::
  "arith \<Rightarrow> real \<Rightarrow> real \<Rightarrow> real \<Rightarrow> real \<Rightarrow> pyexn + pyval" where
  "final_bearing_fp A lat1 lon1 lat2 lon2 =
     (if (lat1 > 90 \<or> lat1 < -90) \<or> (lat2 > 90 \<or> lat2 < -90) then Inl LatitudeRangeException
      else if (lon1 > 180 \<or> lon1 < -180) \<or> (lon2 > 180 \<or> lon2 < -180)
        then Inl LongitudeRangeException
      else case final_bearing_try_fp A lat1 lon1 lat2 lon2 of
             Inl ex \<Rightarrow> Inr (PyInt 1)
           | Inr brng \<Rightarrow>
               exn_bind (fp_mod A (fadd A (fdeg A brng) 180) 360) (\<lambda>b. Inr (PyFloat b)))"

definition midpoint_try_fp ::
  "arith \<Rightarrow> real \<Rightarrow> real \<Rightarrow> real \<Rightarrow> real \<Rightarrow> pyexn + real \<times> real" where
  "midpoint_try_fp A lat1' lon1' lat2' lon2' =
     (let lat1 = frad A lat1';
          lon1 = frad A lon1';
          lat2 = frad A lat2';
          lon2 = frad A lon2';
          bx = fmul A (fcos A lat2) (fcos A (fsub A lon2 lon1));
          by = fmul A (fcos A lat2) (fsin A (fsub A lon2 lon1))
      in exn_bind (fp_sqrt A (fadd A (fmul A (fadd A (fcos A lat1) bx) (fadd A (fcos A lat1) bx))
                                     (fmul A by by))) (\<lambda>s.
         let mLat = fatan2 A (fadd A (fsin A lat1) (fsin A lat2)) s;
             mLon = fadd A lon1 (fatan2 A by (fadd A (fcos A lat1) bx))
         in Inr (mLat, mLon)))"

definition midpoint_fp ::
  "arith \<Rightarrow> real \<Rightarrow> real \<Rightarrow> real \<Rightarrow> real \<Rightarrow> pyexn + pyval" where
  "midpoint_fp A lat1 lon1 lat2 lon2 =
     (if (lat1 > 90 \<or> lat1 < -90) \<or> (lat2 > 90 \<or> lat2 < -90) then Inl LatitudeRangeException
      else if (lon1 > 180 \<or> lon1 < -180) \<or> (lon2 > 180 \<or> lon2 < -180)
        then Inl LongitudeRangeException
      else case midpoint_try_fp A lat1 lon1 lat2 lon2 of
             Inl ex \<Rightarrow> Inr (PyInt 1)
           | Inr (mLat, mLon) \<Rightarrow>
               Inr (PyList [fround2 A (fdeg A mLat), fround2 A (fdeg A mLon)]))"

definition intersection_d_fp ::
  "arith \<Rightarrow> real \<Rightarrow> real \<Rightarrow> real \<Rightarrow> real \<Rightarrow> pyexn + real" where
  "intersection_d_fp A lat1 lon1 lat2 lon2 =
     (let dLat = fsub A lat2 lat1;
          dLon = fsub A lon2 lon1
      in exn_bind (fp_sqrt A
           (fadd A (fmul A (fsin A (fdiv A dLat 2)) (fsin A (fdiv A dLat 2)))
              (fmul A (fmul A (fmul A (fcos A lat1) (fcos A lat2)) (fsin A (fdiv A dLon 2)))
                      (fsin A (fdiv A dLon 2))))) (\<lambda>s.
         exn_bind (fp_asin A s) (\<lambda>a.
         Inr (fmul A 2 a))))"

definition intersection_angles_fp ::
  "arith \<Rightarrow> real \<Rightarrow> real \<Rightarrow> real \<Rightarrow> real \<Rightarrow> real \<Rightarrow> real \<Rightarrow> real \<Rightarrow> pyexn + real \<times> real"
  where
  "intersection_angles_fp A lat1 lon1 brng1 lat2 lon2 brng2 d =
     exn_bind (fp_div A (fsub A (fsin A lat2) (fmul A (fsin A lat1) (fcos A d)))
                        (fmul A (fsin A d) (fcos A lat1))) (\<lambda>q1.
     exn_bind (fp_acos A q1) (\<lambda>f1'.
     let f1 = (if fisnan A f1' then 0 else f1')
     in exn_bind (fp_div A (fsub A (fsin A lat1) (fmul A (fsin A lat2) (fcos A d)))
                           (fmul A (fsin A d) (fcos A lat2))) (\<lambda>q2.
        exn_bind (fp_acos A q2) (\<lambda>f2.
        let b1 = (if fsin A (fsub A lon2 lon1) > 0 then f1 else fsub A (fmul A 2 (fpi A)) f1);
            b2 = (if fsin A (fsub A lon2 lon1) > 0 then fsub A (fmul A 2 (fpi A)) f2 else f2)
        in exn_bind (fp_mod A (fadd A (fsub A brng1 b1) (fpi A)) (fmul A 2 (fpi A))) (\<lambda>m1.
           exn_bind (fp_mod A (fadd A (fsub A b2 brng2) (fpi A)) (fmul A 2 (fpi A))) (\<lambda>m2.
           Inr (fsub A m1 (fpi A), fsub A m2 (fpi A))))))))"

definition intersection_point_fp ::
  "arith \<Rightarrow> real \<Rightarrow> real \<Rightarrow> real \<Rightarrow> real \<Rightarrow> real \<Rightarrow> real \<Rightarrow> pyexn + real \<times> real" where
  "intersection_point_fp A lat1 lon1 brng1 d a1 a2 =
     exn_bind (fp_acos A (fadd A (fmul A (- fcos A a1) (fcos A a2))
                            (fmul A (fmul A (fsin A a1) (fsin A a2)) (fcos A d)))) (\<lambda>a3.
     let dx = fatan2 A (fmul A (fmul A (fsin A d) (fsin A a1)) (fsin A a2))
                (fadd A (fcos A a2) (fmul A (fcos A a1) (fcos A a3)))
     in exn_bind (fp_asin A (fadd A (fmul A (fsin A lat1) (fcos A dx))
                               (fmul A (fmul A (fcos A lat1) (fsin A dx)) (fcos A brng1)))) (\<lambda>lat3.
        let dLon13 = fatan2 A (fmul A (fmul A (fsin A brng1) (fsin A dx)) (fcos A lat1))
                       (fsub A (fcos A dx) (fmul A (fsin A lat1) (fsin A lat3)))
        in exn_bind (fp_mod A (fadd A (fadd A lon1 dLon13) (fpi A)) (fmul A 2 (fpi A))) (\<lambda>m.
           Inr (lat3, fsub A m (fpi A)))))"

definition intersection_try_fp ::
  "arith \<Rightarrow> real \<Rightarrow> real \<Rightarrow> real \<Rightarrow> real \<Rightarrow> real \<Rightarrow> real \<Rightarrow> pyexn + pyval" where
  "intersection_try_fp A lat1' lon1' brng1' lat2' lon2' brng2' =
     (let lat1 = frad A lat1';
          lon1 = frad A lon1';
          lat2 = frad A lat2';
          lon2 = frad A lon2';
          brng1 = frad A brng1';
          brng2 = frad A brng2'
      in exn_bind (intersection_d_fp A lat1 lon1 lat2 lon2) (\<lambda>d.
         if d = 0 then Inr (PyInt 0)
         else exn_bind (intersection_angles_fp A lat1 lon1 brng1 lat2 lon2 brng2 d) (\<lambda>(a1, a2).
           if fsin A a1 = 0 \<and> fsin A a2 = 0 then Inr (PyInt 0)
           else if fmul A (fsin A a1) (fsin A a2) < 0 then Inr (PyInt 0)
           else exn_bind (intersection_point_fp A lat1 lon1 brng1 d a1 a2) (\<lambda>(lat3, lon3).
             Inr (PyList [fdeg A lat3, fdeg A lon3])))))"

definition intersection_fp ::
  "arith \<Rightarrow> real \<Rightarrow> real \<Rightarrow> real \<Rightarrow> real \<Rightarrow> real \<Rightarrow> real \<Rightarrow> pyexn + pyval" where
  "intersection_fp A lat1 lon1 brng1 lat2 lon2 brng2 =
     (if (lat1 > 90 \<or> lat1 < -90) \<or> (lat2 > 90 \<or> lat2 < -90) then Inl LatitudeRangeException
      else if (lon1 > 180 \<or> lon1 < -180) \<or> (lon2 > 180 \<or> lon2 < -180)
        then Inl LongitudeRangeException
      else case intersection_try_fp A lat1 lon1 brng1 lat2 lon2 brng2 of
             Inl ex \<Rightarrow> Inr (PyInt 1)
           | Inr v \<Rightarrow> Inr v)"

definition rhumb_distance_try_fp ::
  "arith \<Rightarrow> real \<Rightarrow> real \<Rightarrow> real \<Rightarrow> real \<Rightarrow> pyexn + real" where
  "rhumb_distance_try_fp A lat1' lon1' lat2' lon2' =
     (let lat1 = frad A lat1';
          lat2 = frad A lat2';
          lon1 = frad A lon1';
          lon2 = frad A lon2';
          dLat = fsub A lat2 lat1;
          dLon = \<bar>fsub A lon2 lon1\<bar>
      in exn_bind (fp_div A (ftan A (fadd A (fdiv A lat2 2) (fdiv A (fpi A) 4)))
                            (ftan A (fadd A (fdiv A lat1 2) (fdiv A (fpi A) 4)))) (\<lambda>r.
         exn_bind (fp_log A r) (\<lambda>dPhi.
         exn_bind (fp_div A dLat dPhi) (\<lambda>t.
         exn_bind (if fisinf A t then Inr (fcos A lat1) else fp_div A dLat dPhi) (\<lambda>q.
         let dLon = (if \<bar>dLon\<bar> > fpi A
                     then (if dLon > 0 then - (fsub A (fmul A 2 (fpi A)) dLon)
                           else fadd A (fmul A 2 (fpi A)) dLon)
                     else dLon)
         in exn_bind (fp_sqrt A (fadd A (fsquare A dLat)
                                   (fmul A (fsquare A q) (fsquare A dLon)))) (\<lambda>s.
            Inr (fmul A s R)))))))"

definition rhumb_distance_fp ::
  "arith \<Rightarrow> real \<Rightarrow> real \<Rightarrow> real \<Rightarrow> real \<Rightarrow> pyexn + pyval" where
  "rhumb_distance_fp A lat1 lon1 lat2 lon2 =
     (if (lat1 > 90 \<or> lat1 < -90) \<or> (lat2 > 90 \<or> lat2 < -90) then Inl LatitudeRangeException
      else if (lon1 > 180 \<or> lon1 < -180) \<or> (lon2 > 180 \<or> lon2 < -180)
        then Inl LongitudeRangeException
      else case rhumb_distance_try_fp A lat1 lon1 lat2 lon2 of
             Inl ex \<Rightarrow> Inr (PyInt 1)
           | Inr dist' \<Rightarrow> Inr (PyFloat dist'))"

definition rhumb_bearing_try_fp ::
  "arith \<Rightarrow> real \<Rightarrow> real \<Rightarrow> real \<Rightarrow> real \<Rightarrow> pyexn + real" where
  "rhumb_bearing_try_fp A lat1' lon1' lat2' lon2' =
     (let lat1 = frad A lat1';
          lat2 = frad A lat2';
          lon1 = frad A lon1';
          lon2 = frad A lon2';
          dLon = fsub A lon2 lon1
      in exn_bind (fp_div A (ftan A (fadd A (fdiv A lat2 2) (fdiv A (fpi A) 4)))
                            (ftan A (fadd A (fdiv A lat1 2) (fdiv A (fpi A) 4)))) (\<lambda>r.
         exn_bind (fp_log A r) (\<lambda>dPhi.
         let dLon = (if \<bar>dLon\<bar> > fpi A
                     then (if dLon > 0 then - (fsub A (fmul A 2 (fpi A)) dLon)
                           else fadd A (fmul A 2 (fpi A)) dLon)
                     else dLon)
         in Inr (fatan2 A dLon dPhi))))"

definition rhumb_bearing_fp ::
  "arith \<Rightarrow> real \<Rightarrow> real \<Rightarrow> real \<Rightarrow> real \<Rightarrow> pyexn + pyval" where
  "rhumb_bearing_fp A lat1 lon1 lat2 lon2 =
     (if (lat1 > 90 \<or> lat1 < -90) \<or> (lat2 > 90 \<or> lat2 < -90) then Inl LatitudeRangeException
      else if (lon1 > 180 \<or> lon1 < -180) \<or> (lon2 > 180 \<or> lon2 < -180)
        then Inl LongitudeRangeException
      else case rhumb_bearing_try_fp A lat1 lon1 lat2 lon2 of
             Inl ex \<Rightarrow> Inr (PyInt 1)
           | Inr brng \<Rightarrow>
               exn_bind (fp_mod A (fadd A (fdeg A brng) 360) 360) (\<lambda>b. Inr (PyFloat b)))"

definition rhumb_destination_point_try_fp ::
  "arith \<Rightarrow> real \<Rightarrow> real \<Rightarrow> real \<Rightarrow> real \<Rightarrow> pyexn + real \<times> real" where
  "rhumb_destination_point_try_fp A lat1' lon1' brng' dist' =
     (let d = fdiv A dist' R;
          lat1 = frad A lat1';
          lon1 = frad A lon1';
          brng = frad A brng';
          lat2 = fadd A lat1 (fmul A d (fcos A brng));
          dLat = fsub A lat2 lat1
      in exn_bind (fp_div A (ftan A (fadd A (fdiv A lat2 2) (fdiv A (fpi A) 4)))
                            (ftan A (fadd A (fdiv A lat1 2) (fdiv A (fpi A) 4)))) (\<lambda>r.
         exn_bind (fp_log A r) (\<lambda>dPhi.
         exn_bind (fp_div A dLat dPhi) (\<lambda>t.
         exn_bind (if fisinf A t then Inr (fcos A lat1) else fp_div A dLat dPhi) (\<lambda>q.
         exn_bind (fp_div A (fmul A d (fsin A brng)) q) (\<lambda>dLon.
         let lat2 = (if \<bar>lat2\<bar> > fdiv A (fpi A) 2
                     then (if lat2 > 0 then fsub A (fpi A) lat2 else fsub A (- fpi A) lat2)
                     else lat2)
         in exn_bind (fp_mod A (fadd A (fadd A lon1 dLon) (fmul A 3 (fpi A)))
                               (fmul A 2 (fpi A))) (\<lambda>m.
            Inr (lat2, fsub A m (fpi A)))))))))"

definition rhumb_destination_point_fp ::
  "arith \<Rightarrow> real \<Rightarrow> real \<Rightarrow> real \<Rightarrow> real \<Rightarrow> pyexn + pyval" where
  "rhumb_destination_point_fp A lat1 lon1 brng dist' =
     (if lat1 > 90 \<or> lat1 < -90 then Inl LatitudeRangeException
      else if lon1 > 180 \<or> lon1 < -180 then Inl LongitudeRangeException
      else case rhumb_destination_point_try_fp A lat1 lon1 brng dist' of
             Inl ex \<Rightarrow> Inr (PyInt 1)
           | Inr (lat2, lon2) \<Rightarrow> Inr (PyList [fdeg A lat2, fdeg A lon2]))"

definition rhumb_midpoint_try_fp ::
  "arith \<Rightarrow> real \<Rightarrow> real \<Rightarrow> real \<Rightarrow> real \<Rightarrow> pyexn + real \<times> real" where
  "rhumb_midpoint_try_fp A lat1' lon1' lat2' lon2' =
     (let lat1 = frad A lat1';
          lat2 = frad A lat2';
          lon1 = frad A lon1';
          lon2 = frad A lon2';
          lat3 = fdiv A (fadd A lat2 lat1) 2;
          f1 = ftan A (fadd A (fdiv A (fpi A) 4) (fdiv A lat1 2));
          f2 = ftan A (fadd A (fdiv A (fpi A) 4) (fdiv A lat2 2));
          f3 = ftan A (fadd A (fdiv A (fpi A) 4) (fdiv A lat3 2))
      in exn_bind (fp_log A f3) (\<lambda>l3.
         exn_bind (fp_log A f2) (\<lambda>l2.
         exn_bind (fp_log A f1) (\<lambda>l1.
         exn_bind (fp_div A f2 f1) (\<lambda>r.
         exn_bind (fp_log A r) (\<lambda>lr.
         exn_bind (fp_div A (fsub A (fadd A (fmul A (fsub A lon2 lon1) l3) (fmul A lon1 l2))
                                    (fmul A lon2 l1)) lr) (\<lambda>lon3'.
         let lon3 = (if fisnan A lon3' then fdiv A (fadd A lon1 lon2) 2 else lon3')
         in exn_bind (fp_mod A (fadd A lon3 (fmul A 3 (fpi A))) (fmul A 2 (fpi A))) (\<lambda>m.
            Inr (lat3, fsub A m (fpi A))))))))))"

definition rhumb_midpoint_fp ::
  "arith \<Rightarrow> real \<Rightarrow> real \<Rightarrow> real \<Rightarrow> real \<Rightarrow> pyexn + pyval" where
  "rhumb_midpoint_fp A lat1 lon1 lat2 lon2 =
     (if lat1 > 90 \<or> lat1 < -90 then Inl LatitudeRangeException
      else if lon1 > 180 \<or> lon1 < -180 then Inl LongitudeRangeException
      else case rhumb_midpoint_try_fp A lat1 lon1 lat2 lon2 of
             Inl ex \<Rightarrow> Inr (PyInt 1)
           | Inr (lat3, lon3) \<Rightarrow> Inr (PyList [fdeg A lat3, fdeg A lon3]))"

definition destination_point_try_fp ::
  "arith \<Rightarrow> real \<Rightarrow> real \<Rightarrow> real \<Rightarrow> real \<Rightarrow> pyexn + real \<times> real" where
  "destination_point_try_fp A lat1' lon1' brng' dist' =
     (let dist = fdiv A dist' R;
          lat1 = frad A lat1';
          lon1 = frad A lon1';
          brng = frad A brng'
      in exn_bind (fp_asin A (fadd A (fmul A (fsin A lat1) (fcos A dist))
                                (fmul A (fmul A (fcos A lat1) (fsin A dist)) (fcos A brng)))) (\<lambda>lat2.
         let lon2 = fadd A lon1
                      (fatan2 A (fmul A (fmul A (fsin A brng) (fsin A dist)) (fcos A lat1))
                                (fsub A (fcos A dist) (fmul A (fsin A lat1) (fsin A lat2))))
         in exn_bind (fp_mod A (fadd A lon2 (fmul A 3 (fpi A))) (fmul A 2 (fpi A))) (\<lambda>m.
            Inr (lat2, fsub A m (fpi A)))))"

definition destination_point_fp ::
  "arith \<Rightarrow> real \<Rightarrow> real \<Rightarrow> real \<Rightarrow> real \<Rightarrow> pyexn + pyval" where
  "destination_point_fp A lat1 lon1 brng dist' =
     (if lat1 > 90 \<or> lat1 < -90 then Inl LatitudeRangeException
      else if lon1 > 180 \<or> lon1 < -180 then Inl LongitudeRangeException
      else case destination_point_try_fp A lat1 lon1 brng dist' of
             Inl ex \<Rightarrow> Inr (PyInt 1)
           | Inr (lat2, lon2) \<Rightarrow> Inr (PyList [fdeg A lat2, fdeg A lon2]))"

section \<open>Basic facts about the model\<close>

lemma exn_bind_Inl [simp]: "exn_bind (Inl ex) f = Inl ex"
  by (simp add: exn_bind_def)

lemma exn_bind_Inr [simp]: "exn_bind (Inr v) f = f v"
  by (simp add: exn_bind_def)

lemma exn_bind_eq_Inr:
  "exn_bind m f = Inr w \<longleftrightarrow> (\<exists>v. m = Inr v \<and> f v = Inr w)"
  by (cases m) simp_all

lemma floor_mod_bounds:
  fixes x y :: real
  assumes "0 < y"
  shows "0 \<le> x - y * of_int \<lfloor>x / y\<rfloor>" and "x - y * of_int \<lfloor>x / y\<rfloor> < y"
proof -
  have "y * of_int \<lfloor>x / y\<rfloor> \<le> x"
    using assms floor_divide_lower by (simp add: mult.commute)
  then show "0 \<le> x - y * of_int \<lfloor>x / y\<rfloor>" by simp
  have "x < y * (of_int \<lfloor>x / y\<rfloor> + 1)"
    using assms floor_divide_upper[of y x] by (simp add: mult.commute)
  then show "x - y * of_int \<lfloor>x / y\<rfloor> < y" by (simp add: algebra_simps)
qed

lemma py_mod_nonzero: "y \<noteq> 0 \<Longrightarrow> py_mod x y = Inr (x - y * of_int \<lfloor>x / y\<rfloor>)"
  by (simp add: py_mod_def)

lemma radians_lat_range:
  assumes "- 90 \<le> x" "x \<le> 90"
  shows "- (pi / 2) \<le> math_radians x" and "math_radians x \<le> pi / 2"
proof -
  have "x * (pi / 180) \<le> 90 * (pi / 180)"
    using assms by (intro mult_right_mono) auto
  then show "math_radians x \<le> pi / 2" by (simp add: math_radians_def)
  have "(- 90) * (pi / 180) \<le> x * (pi / 180)"
    using assms by (intro mult_right_mono) auto
  then show "- (pi / 2) \<le> math_radians x" by (simp add: math_radians_def)
qed

lemma cos_radians_nonneg:
  assumes "- 90 \<le> x" "x \<le> 90"
  shows "0 \<le> cos (math_radians x)"
  using radians_lat_range[OF assms] by (rule cos_ge_zero)

lemma radians_diff: "math_radians (x - y) = math_radians x - math_radians y"
  by (simp add: math_radians_def left_diff_distrib)

lemma radians_swap: "math_radians (x - y) = - math_radians (y - x)"
proof -
  have "x - y = - (y - x)" by simp
  then show ?thesis unfolding math_radians_def by (simp only: mult_minus_left)
qed

lemma sin_half_sq: "sin (u / 2) * sin (u / 2) = (1 - cos u) / (2::real)"
  using cos_double_sin[of "u / 2"] by (simp add: power2_eq_square)

text \<open>
  The cosine of the central angle between two points whose latitudes have a
  non-negative cosine lies in \<open>[-1, 1]\<close>, so \<^verbatim>\<open>acos\<close> of it is defined.
\<close>

lemma central_cos_bounds:
  fixes p1 p2 c :: real
  assumes "0 \<le> cos p1" "0 \<le> cos p2" "- 1 \<le> c" "c \<le> 1"
  shows "- 1 \<le> sin p1 * sin p2 + cos p1 * cos p2 * c"
    and "sin p1 * sin p2 + cos p1 * cos p2 * c \<le> 1"
proof -
  have nn: "0 \<le> cos p1 * cos p2" using assms by simp
  have "cos p1 * cos p2 * c \<le> cos p1 * cos p2 * 1"
    using nn assms by (intro mult_left_mono) auto
  then have "sin p1 * sin p2 + cos p1 * cos p2 * c \<le> cos (p1 - p2)"
    by (simp add: cos_diff)
  then show "sin p1 * sin p2 + cos p1 * cos p2 * c \<le> 1"
    using cos_le_one[of "p1 - p2"] by linarith
  have "cos p1 * cos p2 * (- 1) \<le> cos p1 * cos p2 * c"
    using nn assms by (intro mult_left_mono) auto
  then have "- cos (p1 + p2) \<le> sin p1 * sin p2 + cos p1 * cos p2 * c"
    by (simp add: cos_add)
  then show "- 1 \<le> sin p1 * sin p2 + cos p1 * cos p2 * c"
    using cos_le_one[of "p1 + p2"] by linarith
qed

text \<open>The haversine term \<^verbatim>\<open>a\<close> is half of one minus that cosine.\<close>

lemma haversine_a_eq:
  "sin ((p2 - p1) / 2) * sin ((p2 - p1) / 2) + cos p1 * cos p2 * sin (l / 2) * sin (l / 2) =
   (1 - (sin p1 * sin p2 + cos p1 * cos p2 * cos l)) / (2::real)"
proof -
  have "sin ((p2 - p1) / 2) * sin ((p2 - p1) / 2) = (1 - cos (p2 - p1)) / 2"
    by (rule sin_half_sq)
  moreover have "cos p1 * cos p2 * sin (l / 2) * sin (l / 2) = cos p1 * cos p2 * ((1 - cos l) / 2)"
    using sin_half_sq[of l] by (simp add: mult.assoc)
  ultimately show ?thesis by (simp add: cos_diff algebra_simps)
qed

lemma haversine_a_range:
  fixes lon1 lon2 :: real
  assumes "- 90 \<le> lat1" "lat1 \<le> 90" "- 90 \<le> lat2" "lat2 \<le> 90"
  defines "a \<equiv> sin (math_radians (lat2 - lat1) / 2) * sin (math_radians (lat2 - lat1) / 2) +
              cos (math_radians lat1) * cos (math_radians lat2) *
              sin (math_radians (lon2 - lon1) / 2) * sin (math_radians (lon2 - lon1) / 2)"
  shows "0 \<le> a" and "a \<le> 1"
proof -
  let ?c = "sin (math_radians lat1) * sin (math_radians lat2) +
            cos (math_radians lat1) * cos (math_radians lat2) * cos (math_radians (lon2 - lon1))"
  have a: "a = (1 - ?c) / 2"
    unfolding a_def radians_diff[of lat2 lat1] by (rule haversine_a_eq)
  have "- 1 \<le> ?c" "?c \<le> 1"
    using central_cos_bounds[OF cos_radians_nonneg[OF assms(1,2)] cos_radians_nonneg[OF assms(3,4)],
        of "cos (math_radians (lon2 - lon1))"]
    by simp_all
  then show "0 \<le> a" "a \<le> 1" by (simp_all add: a)
qed

section \<open>The two models agree on exact arithmetic\<close>

text \<open>
  Unfolding the definitions is enough: the floating-point methods are the exact ones,
  operation for operation, once every operation of the arithmetic is the exact one.
\<close>

lemma exact_sel:
  "fadd exact = (+)" "fsub exact = (-)" "fmul exact = (*)" "fdiv exact = (/)"
  "fmod exact = (\<lambda>x y. x - y * of_int \<lfloor>x / y\<rfloor>)"
  "fsquare exact = (\<lambda>x. x ^ 2)" "fsqrt exact = sqrt" "fsin exact = sin" "fcos exact = cos"
  "ftan exact = tan" "fasin exact = arcsin" "facos exact = arccos"
  "fatan2 exact = math_atan2" "flog exact = ln" "frad exact = math_radians"
  "fdeg exact = math_degrees" "fround2 exact = py_round2" "fpi exact = pi"
  "fisnan exact = math_isnan" "fisinf exact = math_isinf"
  by (simp_all add: exact_def)

lemma fp_ops_exact:
  "fp_div exact = py_div" "fp_mod exact = py_mod" "fp_sqrt exact = math_sqrt"
  "fp_asin exact = math_asin" "fp_acos exact = math_acos" "fp_log exact = math_log"
  by (simp_all add: fun_eq_iff fp_div_def py_div_def fp_mod_def py_mod_def fp_sqrt_def
      math_sqrt_def fp_asin_def math_asin_def fp_acos_def math_acos_def fp_log_def math_log_def
      exact_sel)

lemma try_fp_exact:
  "distance_haversine_try_fp exact = distance_haversine_try"
  "distance_sloc_try_fp exact = distance_sloc_try"
  "initial_bearing_try_fp exact = initial_bearing_try"
  "final_bearing_try_fp exact = final_bearing_try"
  "midpoint_try_fp exact = midpoint_try"
  "rhumb_distance_try_fp exact = rhumb_distance_try"
  "rhumb_bearing_try_fp exact = rhumb_bearing_try"
  "rhumb_destination_point_try_fp exact = rhumb_destination_point_try"
  "rhumb_midpoint_try_fp exact = rhumb_midpoint_try"
  "destination_point_try_fp exact = destination_point_try"
  unfolding fun_eq_iff
    distance_haversine_try_fp_def distance_haversine_try_def
    distance_sloc_try_fp_def distance_sloc_try_def
    initial_bearing_try_fp_def initial_bearing_try_def
    final_bearing_try_fp_def final_bearing_try_def
    midpoint_try_fp_def midpoint_try_def
    rhumb_distance_try_fp_def rhumb_distance_try_def
    rhumb_bearing_try_fp_def rhumb_bearing_try_def
    rhumb_destination_point_try_fp_def rhumb_destination_point_try_def
    rhumb_midpoint_try_fp_def rhumb_midpoint_try_def
    destination_point_try_fp_def destination_point_try_def
    exact_sel fp_ops_exact
  by (simp_all only: refl simp_thms)

lemma intersection_parts_fp_exact:
  "intersection_d_fp exact = intersection_d"
  "intersection_angles_fp exact = intersection_angles"
  "intersection_point_fp exact = intersection_point"
  unfolding fun_eq_iff intersection_d_fp_def intersection_d_def
    intersection_angles_fp_def intersection_angles_def
    intersection_point_fp_def intersection_point_def exact_sel fp_ops_exact
  by (simp_all only: refl simp_thms)

lemma intersection_try_fp_exact: "intersection_try_fp exact = intersection_try"
  unfolding fun_eq_iff intersection_try_fp_def intersection_try_def
    intersection_parts_fp_exact exact_sel
  by (simp only: refl simp_thms)

lemma method_fp_exact:
  "distance_haversine_fp exact = distance_haversine"
  "distance_sloc_fp exact = distance_sloc"
  "initial_bearing_fp exact = initial_bearing"
  "final_bearing_fp exact = final_bearing"
  "midpoint_fp exact = midpoint"
  "intersection_fp exact = intersection"
  "rhumb_distance_fp exact = rhumb_distance"
  "rhumb_bearing_fp exact = rhumb_bearing"
  "rhumb_destination_point_fp exact = rhumb_destination_point"
  "rhumb_midpoint_fp exact = rhumb_midpoint"
  "destination_point_fp exact = destination_point"
  unfolding fun_eq_iff
    distance_haversine_fp_def distance_haversine_def
    distance_sloc_fp_def distance_sloc_def
    initial_bearing_fp_def initial_bearing_def
    final_bearing_fp_def final_bearing_def
    midpoint_fp_def midpoint_def
    intersection_fp_def intersection_def
    rhumb_distance_fp_def rhumb_distance_def
    rhumb_bearing_fp_def rhumb_bearing_def
    rhumb_destination_point_fp_def rhumb_destination_point_def
    rhumb_midpoint_fp_def rhumb_midpoint_def
    destination_point_fp_def destination_point_def
    try_fp_exact intersection_try_fp_exact exact_sel fp_ops_exact
  by (simp_all only: refl simp_thms)

section \<open>Haversine distance: symmetry and zero\<close>

lemma haversine_try_sym:
  "distance_haversine_try lat1 lon1 lat2 lon2 = distance_haversine_try lat2 lon2 lat1 lon1"
proof -
  have "math_radians (lat1 - lat2) / 2 = - (math_radians (lat2 - lat1) / 2)"
       "math_radians (lon1 - lon2) / 2 = - (math_radians (lon2 - lon1) / 2)"
    using radians_swap[of lat1 lat2] radians_swap[of lon1 lon2] by simp_all
  then show ?thesis
    unfolding distance_haversine_try_def Let_def by (simp add: mult.commute)
qed

lemma haversine_try_total:
  assumes "- 90 \<le> lat1" "lat1 \<le> 90" "- 90 \<le> lat2" "lat2 \<le> 90"
  shows "\<exists>c. distance_haversine_try lat1 lon1 lat2 lon2 = Inr c"
  using haversine_a_range[OF assms, where ?lon1.0 = lon1 and ?lon2.0 = lon2]
  unfolding distance_haversine_try_def Let_def math_sqrt_def by simp

text \<open>
  Claim C6. For two points with coordinates in the valid ranges,
  \<^verbatim>\<open>distance_haversine(p1, p2)\<close> and \<^verbatim>\<open>distance_haversine(p2, p1)\<close> return the same
  float, and \<^verbatim>\<open>distance_haversine(p, p)\<close> returns \<open>0\<close>.
\<close>

theorem haversine_symmetric_zero:
  assumes "- 90 \<le> lat1" "lat1 \<le> 90" "- 180 \<le> lon1" "lon1 \<le> 180"
    and "- 90 \<le> lat2" "lat2 \<le> 90" "- 180 \<le> lon2" "lon2 \<le> 180"
  shows "(\<exists>r. distance_haversine lat1 lon1 lat2 lon2 = Inr (PyFloat r) \<and>
              distance_haversine lat2 lon2 lat1 lon1 = Inr (PyFloat r)) \<and>
         distance_haversine lat1 lon1 lat1 lon1 = Inr (PyFloat 0)"
proof -
  obtain c where c: "distance_haversine_try lat1 lon1 lat2 lon2 = Inr c"
    using haversine_try_total[OF assms(1,2,5,6)] by blast
  then have c': "distance_haversine_try lat2 lon2 lat1 lon1 = Inr c"
    by (simp add: haversine_try_sym)
  have "distance_haversine lat1 lon1 lat2 lon2 = Inr (PyFloat (R * c))"
       "distance_haversine lat2 lon2 lat1 lon1 = Inr (PyFloat (R * c))"
    using assms c c' by (simp_all add: distance_haversine_def)
  moreover have "distance_haversine_try lat1 lon1 lat1 lon1 = Inr 0"
    by (simp add: distance_haversine_try_def math_radians_def math_sqrt_def math_atan2_def)
  then have "distance_haversine lat1 lon1 lat1 lon1 = Inr (PyFloat 0)"
    using assms by (simp add: distance_haversine_def)
  ultimately show ?thesis by blast
qed

theorem haversine_symmetric_zero_witness:
  "(\<exists>r. distance_haversine 10 20 30 40 = Inr (PyFloat r) \<and>
        distance_haversine 30 40 10 20 = Inr (PyFloat r)) \<and>
   distance_haversine 10 20 10 20 = Inr (PyFloat 0)"
  using haversine_symmetric_zero[of 10 20 30 40] by simp

section \<open>Range checks\<close>

text \<open>
  Eight of the nine methods that take two points check both of them, latitudes first.
\<close>

lemma two_point_latitude_checked:
  assumes "lat1 < - 90 \<or> 90 < lat1 \<or> lat2 < - 90 \<or> 90 < lat2"
  shows "distance_haversine lat1 lon1 lat2 lon2 = Inl LatitudeRangeException"
    and "distance_sloc lat1 lon1 lat2 lon2 = Inl LatitudeRangeException"
    and "initial_bearing lat1 lon1 lat2 lon2 = Inl LatitudeRangeException"
    and "final_bearing lat1 lon1 lat2 lon2 = Inl LatitudeRangeException"
    and "midpoint lat1 lon1 lat2 lon2 = Inl LatitudeRangeException"
    and "intersection lat1 lon1 brng1 lat2 lon2 brng2 = Inl LatitudeRangeException"
    and "rhumb_distance lat1 lon1 lat2 lon2 = Inl LatitudeRangeException"
    and "rhumb_bearing lat1 lon1 lat2 lon2 = Inl LatitudeRangeException"
  using assms
  by (auto simp: distance_haversine_def distance_sloc_def initial_bearing_def final_bearing_def
      midpoint_def intersection_def rhumb_distance_def rhumb_bearing_def)

lemma two_point_longitude_checked:
  assumes "- 90 \<le> lat1" "lat1 \<le> 90" "- 90 \<le> lat2" "lat2 \<le> 90"
    and "lon1 < - 180 \<or> 180 < lon1 \<or> lon2 < - 180 \<or> 180 < lon2"
  shows "distance_haversine lat1 lon1 lat2 lon2 = Inl LongitudeRangeException"
    and "distance_sloc lat1 lon1 lat2 lon2 = Inl LongitudeRangeException"
    and "initial_bearing lat1 lon1 lat2 lon2 = Inl LongitudeRangeException"
    and "final_bearing lat1 lon1 lat2 lon2 = Inl LongitudeRangeException"
    and "midpoint lat1 lon1 lat2 lon2 = Inl LongitudeRangeException"
    and "intersection lat1 lon1 brng1 lat2 lon2 brng2 = Inl LongitudeRangeException"
    and "rhumb_distance lat1 lon1 lat2 lon2 = Inl LongitudeRangeException"
    and "rhumb_bearing lat1 lon1 lat2 lon2 = Inl LongitudeRangeException"
  using assms
  by (auto simp: distance_haversine_def distance_sloc_def initial_bearing_def final_bearing_def
      midpoint_def intersection_def rhumb_distance_def rhumb_bearing_def)

lemma tan_obtuse_neg:
  assumes "pi / 2 < x" "x < pi"
  shows "tan x < 0"
proof -
  have "tan (x - pi) < 0"
    by (rule tan_less_zero) (use assms in auto)
  moreover have "tan (x - pi) = tan x"
    using tan_periodic_int[of x "- 1"] by simp
  ultimately show ?thesis by simp
qed

text \<open>
  On a parallel the three Mercator factors of \<^verbatim>\<open>rhumb_midpoint\<close> are equal: either
  their logarithm is undefined, or \<^verbatim>\<open>math.log(f2/f1)\<close> is \<open>0\<close> and the division by it
  raises. The \<^verbatim>\<open>isnan\<close> test after the division is never reached.
\<close>

lemma rhumb_midpoint_parallel:
  assumes "- 90 \<le> lat1" "lat1 \<le> 90" "- 180 \<le> lon1" "lon1 \<le> 180"
  shows "rhumb_midpoint lat1 lon1 lat1 lon2 = Inr (PyInt 1)"
proof -
  define f where "f = tan (pi / 4 + math_radians lat1 / 2)"
  have "\<exists>ex. rhumb_midpoint_try lat1 lon1 lat1 lon2 = Inl ex"
  proof (cases "f \<le> 0")
    case True
    then show ?thesis
      unfolding rhumb_midpoint_try_def Let_def f_def by (simp add: math_log_def)
  next
    case False
    then show ?thesis
      unfolding rhumb_midpoint_try_def Let_def f_def
      by (simp add: math_log_def py_div_def)
  qed
  then show ?thesis using assms by (auto simp: rhumb_midpoint_def)
qed

text \<open>
  Claim C1, at the method that breaks it. \<^verbatim>\<open>rhumb_midpoint\<close> checks its first point
  only: with a second latitude of \<open>91\<close>, or a second longitude of \<open>181\<close>, it raises
  neither range exception and returns the integer \<open>1\<close>.
\<close>

theorem rhumb_midpoint_second_point_unchecked:
  "rhumb_midpoint 0 0 91 0 = Inr (PyInt 1) \<and> rhumb_midpoint 0 0 0 181 = Inr (PyInt 1)"
proof -
  have "tan (181 * pi / 360) < 0"
    by (rule tan_obtuse_neg) (use pi_gt_zero in auto)
  then have f2: "math_log (tan (181 * pi / 360)) = Inl ValueError"
    by (simp add: math_log_def)
  have "\<exists>ex. rhumb_midpoint_try 0 0 91 0 = Inl ex"
    unfolding rhumb_midpoint_try_def Let_def math_radians_def
    by (cases "math_log (tan (pi / 4 + (91 * (pi / 180) + 0 * (pi / 180)) / 2 / 2))")
       (simp_all add: f2)
  then have "rhumb_midpoint 0 0 91 0 = Inr (PyInt 1)"
    by (auto simp: rhumb_midpoint_def)
  moreover have "rhumb_midpoint 0 0 0 181 = Inr (PyInt 1)"
    using rhumb_midpoint_parallel[of 0 0 181] by simp
  ultimately show ?thesis by simp
qed

section \<open>Rhumb lines along a parallel\<close>

text \<open>
  Claim C9, at an input that breaks it. For the points \<open>(0, 0)\<close> and \<open>(0, 10)\<close> of the
  equator \<^verbatim>\<open>rhumb_midpoint\<close> does not return the means \<open>[0, 5]\<close>: the division by
  \<^verbatim>\<open>math.log(f2/f1)\<close>, which is \<open>0\<close>, raises \<^verbatim>\<open>ZeroDivisionError\<close> and the method
  returns the integer \<open>1\<close>.
\<close>

theorem rhumb_midpoint_parallel_returns_1:
  "rhumb_midpoint_try 0 0 0 10 = Inl ZeroDivisionError \<and> rhumb_midpoint 0 0 0 10 = Inr (PyInt 1)"
  by (simp add: rhumb_midpoint_def rhumb_midpoint_try_def math_radians_def py_div_def
      math_log_def tan_45)

text \<open>
  The same happens in \<^verbatim>\<open>rhumb_distance\<close>: with equal latitudes \<^verbatim>\<open>dPhi\<close> is \<open>0\<close> and
  \<^verbatim>\<open>dLat/dPhi\<close> raises inside the \<^verbatim>\<open>isinf\<close> test.
\<close>

lemma rhumb_distance_parallel:
  assumes "- 90 \<le> lat1" "lat1 \<le> 90" "- 180 \<le> lon1" "lon1 \<le> 180"
    "- 180 \<le> lon2" "lon2 \<le> 180"
  shows "rhumb_distance lat1 lon1 lat1 lon2 = Inr (PyInt 1)"
proof -
  define f where "f = tan (math_radians lat1 / 2 + pi / 4)"
  have "\<exists>ex. rhumb_distance_try lat1 lon1 lat1 lon2 = Inl ex"
  proof (cases "f = 0")
    case True
    then show ?thesis
      unfolding rhumb_distance_try_def Let_def f_def by (simp add: py_div_def)
  next
    case False
    then show ?thesis
      unfolding rhumb_distance_try_def Let_def f_def
      by (simp add: math_log_def py_div_def)
  qed
  then show ?thesis using assms by (auto simp: rhumb_distance_def)
qed

text \<open>
  Claim C4, at an input that breaks it. For the points \<open>(0, 0)\<close> and \<open>(0, 10)\<close>
  \<^verbatim>\<open>rhumb_distance\<close> does not substitute \<^verbatim>\<open>q = cos(lat1)\<close>: the division
  \<^verbatim>\<open>dLat/dPhi\<close> raises \<^verbatim>\<open>ZeroDivisionError\<close> and the method returns the integer \<open>1\<close>.
\<close>

theorem rhumb_distance_east_west_returns_1:
  "rhumb_distance_try 0 0 0 10 = Inl ZeroDivisionError \<and> rhumb_distance 0 0 0 10 = Inr (PyInt 1)"
  by (simp add: rhumb_distance_def rhumb_distance_try_def math_radians_def py_div_def
      math_log_def tan_45)

section \<open>Normalised longitudes of the destination points\<close>

lemma two_squares_product:
  fixes a b c e :: real
  shows "(a * c + b * e)\<^sup>2 + (b * c - a * e)\<^sup>2 = (a\<^sup>2 + b\<^sup>2) * (c\<^sup>2 + e\<^sup>2)"
  by (simp add: power2_eq_square algebra_simps)

text \<open>The argument of \<^verbatim>\<open>asin\<close> in \<^verbatim>\<open>destination_point\<close> lies in \<open>[-1, 1]\<close>.\<close>

lemma asin_arg_bounds:
  fixes p d t :: real
  shows "- 1 \<le> sin p * cos d + cos p * sin d * cos t"
    and "sin p * cos d + cos p * sin d * cos t \<le> 1"
proof -
  let ?s = "sin p * cos d + cos p * sin d * cos t"
  let ?u = "cos p * cos d - sin p * sin d * cos t"
  have "?s\<^sup>2 + ?u\<^sup>2 = ((sin p)\<^sup>2 + (cos p)\<^sup>2) * ((cos d)\<^sup>2 + (sin d * cos t)\<^sup>2)"
    using two_squares_product[of "sin p" "cos d" "cos p" "sin d * cos t"]
    by (simp only: mult.assoc)
  also have "\<dots> = (cos d)\<^sup>2 + (sin d)\<^sup>2 * (cos t)\<^sup>2"
    by (simp add: power_mult_distrib)
  also have "\<dots> \<le> (cos d)\<^sup>2 + (sin d)\<^sup>2 * 1"
    by (intro add_left_mono mult_left_mono) (auto simp: abs_square_le_1)
  also have "\<dots> = 1" by simp
  finally have "?s\<^sup>2 + ?u\<^sup>2 \<le> 1" .
  moreover have "0 \<le> ?u\<^sup>2" by simp
  ultimately have "?s\<^sup>2 \<le> 1" by linarith
  then have "\<bar>?s\<bar> \<le> 1" by (simp add: abs_square_le_1)
  then show "- 1 \<le> ?s" "?s \<le> 1" by linarith+
qed

lemma degrees_lon_range:
  assumes "0 \<le> m" "m < 2 * pi"
  shows "- 180 \<le> math_degrees (m - pi)" and "math_degrees (m - pi) < 180"
proof -
  have "(- pi) * (180 / pi) \<le> (m - pi) * (180 / pi)"
    using assms by (intro mult_right_mono) auto
  then show "- 180 \<le> math_degrees (m - pi)" by (simp add: math_degrees_def)
  have "(m - pi) * (180 / pi) < pi * (180 / pi)"
    using assms by (intro mult_strict_right_mono) auto
  then show "math_degrees (m - pi) < 180" by (simp add: math_degrees_def)
qed

lemma py_mod_2pi:
  "\<exists>m. py_mod x (2 * pi) = Inr m \<and> 0 \<le> m \<and> m < 2 * pi"
  using floor_mod_bounds[of "2 * pi" x] by (simp add: py_mod_def)

lemma py_mod_360:
  "\<exists>m. py_mod x 360 = Inr m \<and> 0 \<le> m \<and> m < 360"
  using floor_mod_bounds[of 360 x] by (simp add: py_mod_def)

lemma destination_point_try_total:
  "\<exists>lat2 m. destination_point_try lat1 lon1 brng d = Inr (lat2, m - pi) \<and> 0 \<le> m \<and> m < 2 * pi"
proof -
  let ?s = "sin (math_radians lat1) * cos (d / R) +
            cos (math_radians lat1) * sin (d / R) * cos (math_radians brng)"
  have s: "math_asin ?s = Inr (arcsin ?s)"
    using asin_arg_bounds[of "math_radians lat1" "d / R" "math_radians brng"]
    by (simp add: math_asin_def)
  show ?thesis
    unfolding destination_point_try_def Let_def s exn_bind_Inr
    using py_mod_2pi by (metis exn_bind_Inr)
qed

lemma destination_point_lon_range:
  assumes "- 90 \<le> lat1" "lat1 \<le> 90" "- 180 \<le> lon1" "lon1 \<le> 180"
  shows "\<exists>lat2 lon2. destination_point lat1 lon1 brng d = Inr (PyList [lat2, lon2]) \<and>
           - 180 \<le> lon2 \<and> lon2 < 180"
proof -
  obtain lat2 m where
    t: "destination_point_try lat1 lon1 brng d = Inr (lat2, m - pi)" and m: "0 \<le> m" "m < 2 * pi"
    using destination_point_try_total by blast
  have "destination_point lat1 lon1 brng d = Inr (PyList [math_degrees lat2, math_degrees (m - pi)])"
    using assms t by (simp add: destination_point_def)
  then show ?thesis using degrees_lon_range[OF m] by blast
qed

lemma rhumb_destination_point_try_lon:
  assumes "rhumb_destination_point_try lat1 lon1 brng d = Inr (lat2, lon2)"
  shows "\<exists>m. lon2 = m - pi \<and> 0 \<le> m \<and> m < 2 * pi"
proof -
  from assms obtain x m where "py_mod x (2 * pi) = Inr m" "lon2 = m - pi"
    unfolding rhumb_destination_point_try_def Let_def
    by (auto simp: exn_bind_eq_Inr)
  then show ?thesis using py_mod_2pi[of x] by auto
qed

lemma rhumb_destination_point_lon_range:
  assumes "- 90 \<le> lat1" "lat1 \<le> 90" "- 180 \<le> lon1" "lon1 \<le> 180"
  shows "rhumb_destination_point lat1 lon1 brng d = Inr (PyInt 1) \<or>
         (\<exists>lat2 lon2. rhumb_destination_point lat1 lon1 brng d = Inr (PyList [lat2, lon2]) \<and>
           - 180 \<le> lon2 \<and> lon2 < 180)"
proof (cases "rhumb_destination_point_try lat1 lon1 brng d")
  case (Inl ex)
  then show ?thesis using assms by (simp add: rhumb_destination_point_def)
next
  case (Inr p)
  obtain lat2 lon2 where p: "p = (lat2, lon2)" by (cases p)
  obtain m where m: "lon2 = m - pi" "0 \<le> m" "m < 2 * pi"
    using rhumb_destination_point_try_lon Inr p by blast
  have "rhumb_destination_point lat1 lon1 brng d =
          Inr (PyList [math_degrees lat2, math_degrees (m - pi)])"
    using assms Inr p m by (simp add: rhumb_destination_point_def)
  then show ?thesis using degrees_lon_range[OF m(2,3)] by blast
qed

lemma tan_quarter_gt_1: "1 < tan (1 / 4 + pi / 4)"
proof -
  have "tan (pi / 4) < tan (1 / 4 + pi / 4)"
    by (rule tan_monotone) (use pi_ge_two in auto)
  then show ?thesis by (simp add: tan_45)
qed

text \<open>
  Due north from \<open>(0, 180)\<close> for half a radian of arc: \<^verbatim>\<open>dLon\<close> is \<open>0\<close> and the
  longitude \<open>pi\<close> is normalised to \<open>- pi\<close>.
\<close>

lemma rhumb_destination_point_north_from_180:
  "rhumb_destination_point 0 180 0 (6371 / 2) = Inr (PyList [math_degrees (1 / 2), - 180])"
proof -
  let ?t = "tan (1 / 4 + pi / 4)"
  have t: "1 < ?t" by (rule tan_quarter_gt_1)
  then have l: "0 < ln ?t" by simp
  have "rhumb_destination_point_try 0 180 0 (6371 / 2) = Inr (1 / 2, - pi)"
    unfolding rhumb_destination_point_try_def Let_def
    using t l pi_ge_two
    by (simp add: R_def math_radians_def tan_45 py_div_def math_log_def math_isinf_def py_mod_def)
  then show ?thesis
    by (simp add: rhumb_destination_point_def math_degrees_def)
qed

text \<open>
  Claim C7, as the code has it. For a valid start point, any bearing and any distance,
  each of \<^verbatim>\<open>destination_point\<close> and \<^verbatim>\<open>rhumb_destination_point\<close> returns the integer
  \<open>1\<close> of a caught exception or a pair, and the longitude of the pair lies in
  \<open>[-180, 180)\<close>: the interval is closed at \<open>-180\<close> and open at \<open>180\<close>.
\<close>

theorem destination_longitude_range:
  assumes "- 90 \<le> lat1" "lat1 \<le> 90" "- 180 \<le> lon1" "lon1 \<le> 180"
  shows "(destination_point lat1 lon1 brng d = Inr (PyInt 1) \<or>
          (\<exists>lat2 lon2. destination_point lat1 lon1 brng d = Inr (PyList [lat2, lon2]) \<and>
            - 180 \<le> lon2 \<and> lon2 < 180)) \<and>
         (rhumb_destination_point lat1 lon1 brng d = Inr (PyInt 1) \<or>
          (\<exists>lat2 lon2. rhumb_destination_point lat1 lon1 brng d = Inr (PyList [lat2, lon2]) \<and>
            - 180 \<le> lon2 \<and> lon2 < 180))"
  using destination_point_lon_range[OF assms] rhumb_destination_point_lon_range[OF assms]
  by blast

theorem destination_longitude_range_witness:
  "(\<exists>lat2 lon2. destination_point 0 180 0 (6371 / 2) = Inr (PyList [lat2, lon2]) \<and>
            - 180 \<le> lon2 \<and> lon2 < 180) \<and>
   (\<exists>lat2 lon2. rhumb_destination_point 0 180 0 (6371 / 2) = Inr (PyList [lat2, lon2]) \<and>
            - 180 \<le> lon2 \<and> lon2 < 180)"
proof -
  have "destination_point 0 180 0 (6371 / 2) \<noteq> Inr (PyInt 1)"
    using destination_point_lon_range[of 0 180 0 "6371 / 2"] by auto
  then show ?thesis
    using destination_longitude_range[of 0 180 0 "6371 / 2"]
      rhumb_destination_point_north_from_180
    by simp
qed

text \<open>
  Claim C7, as the specification states it, fails at the lower end: starting on the
  meridian \<open>180\<close> with bearing \<open>0\<close>, both methods return the longitude \<open>-180\<close>, which
  is outside \<open>(-180, 180]\<close>.
\<close>

theorem destination_longitude_minus_180:
  "destination_point 0 180 0 0 = Inr (PyList [0, - 180]) \<and>
   rhumb_destination_point 0 180 0 (6371 / 2) = Inr (PyList [math_degrees (1 / 2), - 180])"
proof -
  have "destination_point 0 180 0 0 = Inr (PyList [0, - 180])"
    by (simp add: destination_point_def destination_point_try_def math_radians_def math_asin_def
      math_atan2_def py_mod_def math_degrees_def R_def)
  then show ?thesis using rhumb_destination_point_north_from_180 by simp
qed

section \<open>Great-circle bearings\<close>

text \<open>
  Claim C8. For two valid points, with \<open>deg\<close> the \<^verbatim>\<open>atan2\<close> formula in degrees,
  \<^verbatim>\<open>initial_bearing\<close> returns \<open>(deg + 360) mod 360\<close> and \<^verbatim>\<open>final_bearing\<close> returns
  \<open>(deg + 180) mod 360\<close>, and both values lie in \<open>[0, 360)\<close>.
\<close>

theorem bearings_normalised:
  assumes "- 90 \<le> lat1" "lat1 \<le> 90" "- 180 \<le> lon1" "lon1 \<le> 180"
    and "- 90 \<le> lat2" "lat2 \<le> 90" "- 180 \<le> lon2" "lon2 \<le> 180"
  defines "dLon \<equiv> math_radians lon2 - math_radians lon1"
  defines "deg \<equiv> math_degrees (math_atan2
      (sin dLon * cos (math_radians lat2))
      (cos (math_radians lat1) * sin (math_radians lat2) -
       sin (math_radians lat1) * cos (math_radians lat2) * cos dLon))"
  shows "\<exists>b1 b2. initial_bearing lat1 lon1 lat2 lon2 = Inr (PyFloat b1) \<and>
                 final_bearing lat1 lon1 lat2 lon2 = Inr (PyFloat b2) \<and>
                 py_mod (deg + 360) 360 = Inr b1 \<and> py_mod (deg + 180) 360 = Inr b2 \<and>
                 0 \<le> b1 \<and> b1 < 360 \<and> 0 \<le> b2 \<and> b2 < 360"
proof -
  obtain b1 where b1: "py_mod (deg + 360) 360 = Inr b1" "0 \<le> b1" "b1 < 360"
    using py_mod_360 by blast
  obtain b2 where b2: "py_mod (deg + 180) 360 = Inr b2" "0 \<le> b2" "b2 < 360"
    using py_mod_360 by blast
  have "initial_bearing lat1 lon1 lat2 lon2 = Inr (PyFloat b1)"
    using assms(1-8) b1(1)
    by (simp add: initial_bearing_def initial_bearing_try_def Let_def deg_def dLon_def)
  moreover have "final_bearing lat1 lon1 lat2 lon2 = Inr (PyFloat b2)"
    using assms(1-8) b2(1)
    by (simp add: final_bearing_def final_bearing_try_def Let_def deg_def dLon_def)
  ultimately show ?thesis using b1 b2 by blast
qed

theorem bearings_normalised_witness:
  "\<exists>b1 b2. initial_bearing 10 20 30 40 = Inr (PyFloat b1) \<and>
           final_bearing 10 20 30 40 = Inr (PyFloat b2) \<and>
           0 \<le> b1 \<and> b1 < 360 \<and> 0 \<le> b2 \<and> b2 < 360"
  using bearings_normalised[of 10 20 30 40] by auto

section \<open>What a call returns once the range checks pass\<close>

text \<open>
  In exact arithmetic the \<^verbatim>\<open>try\<close> blocks of \<^verbatim>\<open>distance_sloc\<close> and \<^verbatim>\<open>midpoint\<close>, like those
  of \<^verbatim>\<open>distance_haversine\<close> and \<^verbatim>\<open>destination_point\<close> above, never raise on valid points:
  where the interpreter raises there, a rounding did it.
\<close>

lemma distance_sloc_try_total:
  assumes "- 90 \<le> lat1" "lat1 \<le> 90" "- 90 \<le> lat2" "lat2 \<le> 90"
  shows "\<exists>c. distance_sloc_try lat1 lon1 lat2 lon2 = Inr c"
  using central_cos_bounds[OF cos_radians_nonneg[OF assms(1,2)] cos_radians_nonneg[OF assms(3,4)],
      of "cos (math_radians (lon2 - lon1))"]
  by (simp add: distance_sloc_try_def math_acos_def)

lemma midpoint_try_total: "\<exists>p. midpoint_try lat1 lon1 lat2 lon2 = Inr p"
proof -
  have "\<not> (x * x + y * y < 0)" for x y :: real
    by (simp add: not_less)
  then show ?thesis
    unfolding midpoint_try_def Let_def math_sqrt_def by simp
qed

text \<open>
  From here on the arithmetic \<open>A\<close> is arbitrary. The \<^verbatim>\<open>try\<close> block of \<^verbatim>\<open>intersection\<close>
  yields the integer \<open>0\<close> or a pair, never the integer \<open>1\<close>; and for each method, with its
  own range checks passed, the two facts the claims C10 and C2 are about.
\<close>

lemma intersection_try_fp_value:
  assumes "intersection_try_fp A lat1 lon1 brng1 lat2 lon2 brng2 = Inr v"
  shows "v = PyInt 0 \<or> (\<exists>lat3 lon3. v = PyList [lat3, lon3])"
  using assms unfolding intersection_try_fp_def Let_def
  by (auto simp: exn_bind_eq_Inr split: if_splits prod.splits)

lemma distance_haversine_fp_cases:
  assumes "- 90 \<le> lat1" "lat1 \<le> 90" "- 180 \<le> lon1" "lon1 \<le> 180"
    and "- 90 \<le> lat2" "lat2 \<le> 90" "- 180 \<le> lon2" "lon2 \<le> 180"
  shows "distance_haversine_fp A lat1 lon1 lat2 lon2 = Inr (PyInt 1) \<longleftrightarrow>
              (\<exists>ex. distance_haversine_try_fp A lat1 lon1 lat2 lon2 = Inl ex)"
    and "distance_haversine_fp A lat1 lon1 lat2 lon2 = Inr (PyInt 1) \<or>
         (\<exists>r. distance_haversine_fp A lat1 lon1 lat2 lon2 = Inr (PyFloat r))"
  using assms
  by (cases "distance_haversine_try_fp A lat1 lon1 lat2 lon2"; auto simp: distance_haversine_fp_def)+

lemma distance_sloc_fp_cases:
  assumes "- 90 \<le> lat1" "lat1 \<le> 90" "- 180 \<le> lon1" "lon1 \<le> 180"
    and "- 90 \<le> lat2" "lat2 \<le> 90" "- 180 \<le> lon2" "lon2 \<le> 180"
  shows "distance_sloc_fp A lat1 lon1 lat2 lon2 = Inr (PyInt 1) \<longleftrightarrow>
              (\<exists>ex. distance_sloc_try_fp A lat1 lon1 lat2 lon2 = Inl ex)"
    and "distance_sloc_fp A lat1 lon1 lat2 lon2 = Inr (PyInt 1) \<or>
         (\<exists>r. distance_sloc_fp A lat1 lon1 lat2 lon2 = Inr (PyFloat r))"
  using assms
  by (cases "distance_sloc_try_fp A lat1 lon1 lat2 lon2"; auto simp: distance_sloc_fp_def)+

lemma initial_bearing_fp_cases:
  assumes "- 90 \<le> lat1" "lat1 \<le> 90" "- 180 \<le> lon1" "lon1 \<le> 180"
    and "- 90 \<le> lat2" "lat2 \<le> 90" "- 180 \<le> lon2" "lon2 \<le> 180"
  shows "initial_bearing_fp A lat1 lon1 lat2 lon2 = Inr (PyInt 1) \<longleftrightarrow>
              (\<exists>ex. initial_bearing_try_fp A lat1 lon1 lat2 lon2 = Inl ex)"
    and "initial_bearing_fp A lat1 lon1 lat2 lon2 = Inr (PyInt 1) \<or>
         (\<exists>r. initial_bearing_fp A lat1 lon1 lat2 lon2 = Inr (PyFloat r))"
  using assms
  by (cases "initial_bearing_try_fp A lat1 lon1 lat2 lon2"; auto simp: initial_bearing_fp_def fp_mod_def)+

lemma final_bearing_fp_cases:
  assumes "- 90 \<le> lat1" "lat1 \<le> 90" "- 180 \<le> lon1" "lon1 \<le> 180"
    and "- 90 \<le> lat2" "lat2 \<le> 90" "- 180 \<le> lon2" "lon2 \<le> 180"
  shows "final_bearing_fp A lat1 lon1 lat2 lon2 = Inr (PyInt 1) \<longleftrightarrow>
              (\<exists>ex. final_bearing_try_fp A lat1 lon1 lat2 lon2 = Inl ex)"
    and "final_bearing_fp A lat1 lon1 lat2 lon2 = Inr (PyInt 1) \<or>
         (\<exists>r. final_bearing_fp A lat1 lon1 lat2 lon2 = Inr (PyFloat r))"
  using assms
  by (cases "final_bearing_try_fp A lat1 lon1 lat2 lon2"; auto simp: final_bearing_fp_def fp_mod_def)+

lemma midpoint_fp_cases:
  assumes "- 90 \<le> lat1" "lat1 \<le> 90" "- 180 \<le> lon1" "lon1 \<le> 180"
    and "- 90 \<le> lat2" "lat2 \<le> 90" "- 180 \<le> lon2" "lon2 \<le> 180"
  shows "midpoint_fp A lat1 lon1 lat2 lon2 = Inr (PyInt 1) \<longleftrightarrow>
              (\<exists>ex. midpoint_try_fp A lat1 lon1 lat2 lon2 = Inl ex)"
    and "midpoint_fp A lat1 lon1 lat2 lon2 = Inr (PyInt 1) \<or>
          (\<exists>a b. midpoint_fp A lat1 lon1 lat2 lon2 = Inr (PyList [a, b]))"
  using assms
  by (cases "midpoint_try_fp A lat1 lon1 lat2 lon2"; auto simp: midpoint_fp_def)+

lemma intersection_fp_cases:
  assumes "- 90 \<le> lat1" "lat1 \<le> 90" "- 180 \<le> lon1" "lon1 \<le> 180"
    and "- 90 \<le> lat2" "lat2 \<le> 90" "- 180 \<le> lon2" "lon2 \<le> 180"
  shows "intersection_fp A lat1 lon1 brng1 lat2 lon2 brng2 = Inr (PyInt 1) \<longleftrightarrow>
              (\<exists>ex. intersection_try_fp A lat1 lon1 brng1 lat2 lon2 brng2 = Inl ex)"
    and "intersection_fp A lat1 lon1 brng1 lat2 lon2 brng2 = Inr (PyInt 1) \<or>
          intersection_fp A lat1 lon1 brng1 lat2 lon2 brng2 = Inr (PyInt 0) \<or>
          (\<exists>a b. intersection_fp A lat1 lon1 brng1 lat2 lon2 brng2 = Inr (PyList [a, b]))"
  using assms intersection_try_fp_value[of A lat1 lon1 brng1 lat2 lon2 brng2]
  by (cases "intersection_try_fp A lat1 lon1 brng1 lat2 lon2 brng2"; auto simp: intersection_fp_def)+

lemma rhumb_distance_fp_cases:
  assumes "- 90 \<le> lat1" "lat1 \<le> 90" "- 180 \<le> lon1" "lon1 \<le> 180"
    and "- 90 \<le> lat2" "lat2 \<le> 90" "- 180 \<le> lon2" "lon2 \<le> 180"
  shows "rhumb_distance_fp A lat1 lon1 lat2 lon2 = Inr (PyInt 1) \<longleftrightarrow>
              (\<exists>ex. rhumb_distance_try_fp A lat1 lon1 lat2 lon2 = Inl ex)"
    and "rhumb_distance_fp A lat1 lon1 lat2 lon2 = Inr (PyInt 1) \<or>
         (\<exists>r. rhumb_distance_fp A lat1 lon1 lat2 lon2 = Inr (PyFloat r))"
  using assms
  by (cases "rhumb_distance_try_fp A lat1 lon1 lat2 lon2"; auto simp: rhumb_distance_fp_def)+

lemma rhumb_bearing_fp_cases:
  assumes "- 90 \<le> lat1" "lat1 \<le> 90" "- 180 \<le> lon1" "lon1 \<le> 180"
    and "- 90 \<le> lat2" "lat2 \<le> 90" "- 180 \<le> lon2" "lon2 \<le> 180"
  shows "rhumb_bearing_fp A lat1 lon1 lat2 lon2 = Inr (PyInt 1) \<longleftrightarrow>
              (\<exists>ex. rhumb_bearing_try_fp A lat1 lon1 lat2 lon2 = Inl ex)"
    and "rhumb_bearing_fp A lat1 lon1 lat2 lon2 = Inr (PyInt 1) \<or>
         (\<exists>r. rhumb_bearing_fp A lat1 lon1 lat2 lon2 = Inr (PyFloat r))"
  using assms
  by (cases "rhumb_bearing_try_fp A lat1 lon1 lat2 lon2"; auto simp: rhumb_bearing_fp_def fp_mod_def)+

lemma rhumb_destination_point_fp_cases:
  assumes "- 90 \<le> lat1" "lat1 \<le> 90" "- 180 \<le> lon1" "lon1 \<le> 180"
  shows "rhumb_destination_point_fp A lat1 lon1 brng d = Inr (PyInt 1) \<longleftrightarrow>
              (\<exists>ex. rhumb_destination_point_try_fp A lat1 lon1 brng d = Inl ex)"
    and "rhumb_destination_point_fp A lat1 lon1 brng d = Inr (PyInt 1) \<or>
          (\<exists>a b. rhumb_destination_point_fp A lat1 lon1 brng d = Inr (PyList [a, b]))"
  using assms
  by (cases "rhumb_destination_point_try_fp A lat1 lon1 brng d"; auto simp: rhumb_destination_point_fp_def)+

lemma rhumb_midpoint_fp_cases:
  assumes "- 90 \<le> lat1" "lat1 \<le> 90" "- 180 \<le> lon1" "lon1 \<le> 180"
  shows "rhumb_midpoint_fp A lat1 lon1 lat2 lon2 = Inr (PyInt 1) \<longleftrightarrow>
              (\<exists>ex. rhumb_midpoint_try_fp A lat1 lon1 lat2 lon2 = Inl ex)"
    and "rhumb_midpoint_fp A lat1 lon1 lat2 lon2 = Inr (PyInt 1) \<or>
          (\<exists>a b. rhumb_midpoint_fp A lat1 lon1 lat2 lon2 = Inr (PyList [a, b]))"
  using assms
  by (cases "rhumb_midpoint_try_fp A lat1 lon1 lat2 lon2"; auto simp: rhumb_midpoint_fp_def)+

lemma destination_point_fp_cases:
  assumes "- 90 \<le> lat1" "lat1 \<le> 90" "- 180 \<le> lon1" "lon1 \<le> 180"
  shows "destination_point_fp A lat1 lon1 brng d = Inr (PyInt 1) \<longleftrightarrow>
              (\<exists>ex. destination_point_try_fp A lat1 lon1 brng d = Inl ex)"
    and "destination_point_fp A lat1 lon1 brng d = Inr (PyInt 1) \<or>
          (\<exists>a b. destination_point_fp A lat1 lon1 brng d = Inr (PyList [a, b]))"
  using assms
  by (cases "destination_point_try_fp A lat1 lon1 brng d"; auto simp: destination_point_fp_def)+

text \<open>
  The \<^verbatim>\<open>try\<close> blocks of the two bearings call nothing that raises on a finite float:
  their \<^verbatim>\<open>except\<close> clause is never entered, whatever the arithmetic.
\<close>

lemma bearing_try_fp_total:
  "\<exists>b. initial_bearing_try_fp A lat1 lon1 lat2 lon2 = Inr b"
  "\<exists>b. final_bearing_try_fp A lat1 lon1 lat2 lon2 = Inr b"
  by (simp_all add: initial_bearing_try_fp_def final_bearing_try_fp_def Let_def)

text \<open>
  Claim C10. In every floating-point arithmetic, once a method's own range checks have
  passed (both points for eight methods, the first point only for
  \<^verbatim>\<open>rhumb_destination_point\<close>, \<^verbatim>\<open>rhumb_midpoint\<close> and \<^verbatim>\<open>destination_point\<close>), the method
  returns the integer \<open>1\<close> exactly when its \<^verbatim>\<open>try\<close> block raises: every exception of the
  block is caught and turned into \<open>1\<close>, and no other path returns \<open>1\<close>.
\<close>

theorem math_exception_returns_1:
  assumes "- 90 \<le> lat1" "lat1 \<le> 90" "- 180 \<le> lon1" "lon1 \<le> 180"
  shows "(- 90 \<le> lat2 \<and> lat2 \<le> 90 \<and> - 180 \<le> lon2 \<and> lon2 \<le> 180 \<longrightarrow>
            (distance_haversine_fp A lat1 lon1 lat2 lon2 = Inr (PyInt 1) \<longleftrightarrow>
                (\<exists>ex. distance_haversine_try_fp A lat1 lon1 lat2 lon2 = Inl ex)) \<and>
            (distance_sloc_fp A lat1 lon1 lat2 lon2 = Inr (PyInt 1) \<longleftrightarrow>
                (\<exists>ex. distance_sloc_try_fp A lat1 lon1 lat2 lon2 = Inl ex)) \<and>
            (initial_bearing_fp A lat1 lon1 lat2 lon2 = Inr (PyInt 1) \<longleftrightarrow>
                (\<exists>ex. initial_bearing_try_fp A lat1 lon1 lat2 lon2 = Inl ex)) \<and>
            (final_bearing_fp A lat1 lon1 lat2 lon2 = Inr (PyInt 1) \<longleftrightarrow>
                (\<exists>ex. final_bearing_try_fp A lat1 lon1 lat2 lon2 = Inl ex)) \<and>
            (midpoint_fp A lat1 lon1 lat2 lon2 = Inr (PyInt 1) \<longleftrightarrow>
                (\<exists>ex. midpoint_try_fp A lat1 lon1 lat2 lon2 = Inl ex)) \<and>
            (intersection_fp A lat1 lon1 brng1 lat2 lon2 brng2 = Inr (PyInt 1) \<longleftrightarrow>
                (\<exists>ex. intersection_try_fp A lat1 lon1 brng1 lat2 lon2 brng2 = Inl ex)) \<and>
            (rhumb_distance_fp A lat1 lon1 lat2 lon2 = Inr (PyInt 1) \<longleftrightarrow>
                (\<exists>ex. rhumb_distance_try_fp A lat1 lon1 lat2 lon2 = Inl ex)) \<and>
            (rhumb_bearing_fp A lat1 lon1 lat2 lon2 = Inr (PyInt 1) \<longleftrightarrow>
                (\<exists>ex. rhumb_bearing_try_fp A lat1 lon1 lat2 lon2 = Inl ex))) \<and>
         (rhumb_destination_point_fp A lat1 lon1 brng d = Inr (PyInt 1) \<longleftrightarrow>
             (\<exists>ex. rhumb_destination_point_try_fp A lat1 lon1 brng d = Inl ex)) \<and>
         (rhumb_midpoint_fp A lat1 lon1 lat2 lon2 = Inr (PyInt 1) \<longleftrightarrow>
             (\<exists>ex. rhumb_midpoint_try_fp A lat1 lon1 lat2 lon2 = Inl ex)) \<and>
         (destination_point_fp A lat1 lon1 brng d = Inr (PyInt 1) \<longleftrightarrow>
             (\<exists>ex. destination_point_try_fp A lat1 lon1 brng d = Inl ex))"
proof -
  have two: "(distance_haversine_fp A lat1 lon1 lat2 lon2 = Inr (PyInt 1) \<longleftrightarrow>
                 (\<exists>ex. distance_haversine_try_fp A lat1 lon1 lat2 lon2 = Inl ex)) \<and>
             (distance_sloc_fp A lat1 lon1 lat2 lon2 = Inr (PyInt 1) \<longleftrightarrow>
                 (\<exists>ex. distance_sloc_try_fp A lat1 lon1 lat2 lon2 = Inl ex)) \<and>
             (initial_bearing_fp A lat1 lon1 lat2 lon2 = Inr (PyInt 1) \<longleftrightarrow>
                 (\<exists>ex. initial_bearing_try_fp A lat1 lon1 lat2 lon2 = Inl ex)) \<and>
             (final_bearing_fp A lat1 lon1 lat2 lon2 = Inr (PyInt 1) \<longleftrightarrow>
                 (\<exists>ex. final_bearing_try_fp A lat1 lon1 lat2 lon2 = Inl ex)) \<and>
             (midpoint_fp A lat1 lon1 lat2 lon2 = Inr (PyInt 1) \<longleftrightarrow>
                 (\<exists>ex. midpoint_try_fp A lat1 lon1 lat2 lon2 = Inl ex)) \<and>
             (intersection_fp A lat1 lon1 brng1 lat2 lon2 brng2 = Inr (PyInt 1) \<longleftrightarrow>
                 (\<exists>ex. intersection_try_fp A lat1 lon1 brng1 lat2 lon2 brng2 = Inl ex)) \<and>
             (rhumb_distance_fp A lat1 lon1 lat2 lon2 = Inr (PyInt 1) \<longleftrightarrow>
                 (\<exists>ex. rhumb_distance_try_fp A lat1 lon1 lat2 lon2 = Inl ex)) \<and>
             (rhumb_bearing_fp A lat1 lon1 lat2 lon2 = Inr (PyInt 1) \<longleftrightarrow>
                 (\<exists>ex. rhumb_bearing_try_fp A lat1 lon1 lat2 lon2 = Inl ex))"
    if "- 90 \<le> lat2 \<and> lat2 \<le> 90 \<and> - 180 \<le> lon2 \<and> lon2 \<le> 180"
    using assms that
    by (intro conjI distance_haversine_fp_cases(1) distance_sloc_fp_cases(1)
        initial_bearing_fp_cases(1) final_bearing_fp_cases(1) midpoint_fp_cases(1)
        intersection_fp_cases(1) rhumb_distance_fp_cases(1) rhumb_bearing_fp_cases(1))
      simp_all
  have one: "(rhumb_destination_point_fp A lat1 lon1 brng d = Inr (PyInt 1) \<longleftrightarrow>
                 (\<exists>ex. rhumb_destination_point_try_fp A lat1 lon1 brng d = Inl ex)) \<and>
             (rhumb_midpoint_fp A lat1 lon1 lat2 lon2 = Inr (PyInt 1) \<longleftrightarrow>
                 (\<exists>ex. rhumb_midpoint_try_fp A lat1 lon1 lat2 lon2 = Inl ex)) \<and>
             (destination_point_fp A lat1 lon1 brng d = Inr (PyInt 1) \<longleftrightarrow>
                 (\<exists>ex. destination_point_try_fp A lat1 lon1 brng d = Inl ex))"
    using assms
    by (intro conjI rhumb_destination_point_fp_cases(1) rhumb_midpoint_fp_cases(1)
        destination_point_fp_cases(1))
  show ?thesis using two one by blast
qed

text \<open>
  Inputs on which the blocks raise. With the rounding of \<open>round_up\<close>: the cosine sum of
  \<^verbatim>\<open>distance_sloc\<close> for two equal points exceeds \<open>1\<close>, as does the haversine term of two
  antipodal points, the sine of the destination latitude at the pole, and the square
  root under \<^verbatim>\<open>asin\<close> in \<^verbatim>\<open>intersection\<close>. In exact arithmetic: the rhumb-line methods
  from the south pole, due east, and with the unchecked second latitude \<open>91\<close>.
\<close>

lemma round_up_sel:
  "fadd round_up = (\<lambda>x y. x + y + 1 / 10 ^ 16)" "fsub round_up = (-)" "fmul round_up = (*)"
  "fdiv round_up = (/)" "fsqrt round_up = sqrt" "fsin round_up = sin" "fcos round_up = cos"
  "frad round_up = math_radians"
  by (simp_all add: round_up_def exact_def)

lemma distance_sloc_try_round_up: "distance_sloc_try_fp round_up 0 0 0 0 = Inl ValueError"
  by (simp add: distance_sloc_try_fp_def fp_acos_def round_up_sel math_radians_def)

lemma distance_haversine_try_round_up:
  "distance_haversine_try_fp round_up 0 0 0 180 = Inl ValueError"
  by (simp add: distance_haversine_try_fp_def fp_sqrt_def round_up_sel math_radians_def)

lemma destination_point_try_round_up:
  "destination_point_try_fp round_up 90 0 0 0 = Inl ValueError"
  by (simp add: destination_point_try_fp_def fp_asin_def round_up_sel math_radians_def R_def)

lemma intersection_try_round_up:
  "intersection_try_fp round_up 0 0 brng1 0 180 brng2 = Inl ValueError"
proof -
  have "1 < sqrt (1 + 1 / 10 ^ 16 :: real)"
    by simp
  then have "intersection_d_fp round_up 0 0 0 pi = Inl ValueError"
    by (simp add: intersection_d_fp_def fp_sqrt_def fp_asin_def round_up_sel)
  then show ?thesis
    by (simp add: intersection_try_fp_def round_up_sel math_radians_def)
qed

lemma rhumb_midpoint_try_lat_91: "\<exists>ex. rhumb_midpoint_try 0 0 91 0 = Inl ex"
proof -
  have "tan (181 * pi / 360) < 0"
    by (rule tan_obtuse_neg) (use pi_gt_zero in auto)
  then have f2: "math_log (tan (181 * pi / 360)) = Inl ValueError"
    by (simp add: math_log_def)
  show ?thesis
    unfolding rhumb_midpoint_try_def Let_def math_radians_def
    by (cases "math_log (tan (pi / 4 + (91 * (pi / 180) + 0 * (pi / 180)) / 2 / 2))")
       (simp_all add: f2)
qed

lemma rhumb_destination_point_try_east:
  "rhumb_destination_point_try 0 0 90 100 = Inl ZeroDivisionError"
  by (simp add: rhumb_destination_point_try_def math_radians_def py_div_def math_log_def tan_45)

lemma rhumb_try_from_south_pole:
  "rhumb_bearing_try (- 90) 0 0 0 = Inl ZeroDivisionError"
  "rhumb_distance_try (- 90) 0 0 0 = Inl ZeroDivisionError"
  by (simp_all add: rhumb_bearing_try_def rhumb_distance_try_def math_radians_def py_div_def)

theorem math_exception_returns_1_witness:
  "distance_haversine_fp round_up 0 0 0 180 = Inr (PyInt 1) \<and>
   distance_sloc_fp round_up 0 0 0 0 = Inr (PyInt 1) \<and>
   intersection_fp round_up 0 0 30 0 180 40 = Inr (PyInt 1) \<and>
   destination_point_fp round_up 90 0 0 0 = Inr (PyInt 1) \<and>
   rhumb_distance_fp exact (- 90) 0 0 0 = Inr (PyInt 1) \<and>
   rhumb_bearing_fp exact (- 90) 0 0 0 = Inr (PyInt 1) \<and>
   rhumb_destination_point_fp exact 0 0 90 100 = Inr (PyInt 1) \<and>
   rhumb_midpoint_fp exact 0 0 91 0 = Inr (PyInt 1)"
proof -
  have v: "- 90 \<le> (0::real)" "(0::real) \<le> 90" "- 180 \<le> (0::real)" "(0::real) \<le> 180"
    and s: "- 90 \<le> (- 90::real)" "(- 90::real) \<le> 90"
    and n: "- 90 \<le> (90::real)" "(90::real) \<le> 90"
    by simp_all
  note up = math_exception_returns_1[OF v, where A = round_up]
  have "distance_haversine_fp round_up 0 0 0 180 = Inr (PyInt 1)"
    using up[of 0 180] distance_haversine_try_round_up by simp
  moreover have "distance_sloc_fp round_up 0 0 0 0 = Inr (PyInt 1)"
    using up[of 0 0] distance_sloc_try_round_up by simp
  moreover have "intersection_fp round_up 0 0 30 0 180 40 = Inr (PyInt 1)"
    using up[of 0 180 30 40] intersection_try_round_up[of 30 40] by simp
  moreover have "destination_point_fp round_up 90 0 0 0 = Inr (PyInt 1)"
    using math_exception_returns_1[OF n v(3,4), where A = round_up and brng = 0 and d = 0]
      destination_point_try_round_up by simp
  moreover have "rhumb_distance_fp exact (- 90) 0 0 0 = Inr (PyInt 1)"
    using math_exception_returns_1[OF s v(3,4), where A = exact, of 0 0]
      rhumb_try_from_south_pole by (simp add: try_fp_exact)
  moreover have "rhumb_bearing_fp exact (- 90) 0 0 0 = Inr (PyInt 1)"
    using math_exception_returns_1[OF s v(3,4), where A = exact, of 0 0]
      rhumb_try_from_south_pole by (simp add: try_fp_exact)
  moreover have "rhumb_destination_point_fp exact 0 0 90 100 = Inr (PyInt 1)"
    using math_exception_returns_1[OF v, where A = exact and brng = 90 and d = 100]
      rhumb_destination_point_try_east by (simp add: try_fp_exact)
  moreover have "rhumb_midpoint_fp exact 0 0 91 0 = Inr (PyInt 1)"
    using math_exception_returns_1[OF v, where A = exact, of 91 0]
      rhumb_midpoint_try_lat_91 by (simp add: try_fp_exact)
  ultimately show ?thesis by (intro conjI)
qed

text \<open>
  Claim C2, as the code has it. In every floating-point arithmetic, with all coordinates
  in their ranges, no method raises, neither a range exception nor any other: each
  returns its float, its pair or the sentinel \<open>0\<close>, or else the integer \<open>1\<close> that stands
  for an exception caught in its \<^verbatim>\<open>try\<close> block.
\<close>

theorem valid_input_never_raises:
  assumes "- 90 \<le> lat1" "lat1 \<le> 90" "- 180 \<le> lon1" "lon1 \<le> 180"
    and "- 90 \<le> lat2" "lat2 \<le> 90" "- 180 \<le> lon2" "lon2 \<le> 180"
  shows "(distance_haversine_fp A lat1 lon1 lat2 lon2 = Inr (PyInt 1) \<or>
          (\<exists>r. distance_haversine_fp A lat1 lon1 lat2 lon2 = Inr (PyFloat r))) \<and>
         (distance_sloc_fp A lat1 lon1 lat2 lon2 = Inr (PyInt 1) \<or>
          (\<exists>r. distance_sloc_fp A lat1 lon1 lat2 lon2 = Inr (PyFloat r))) \<and>
         (initial_bearing_fp A lat1 lon1 lat2 lon2 = Inr (PyInt 1) \<or>
          (\<exists>r. initial_bearing_fp A lat1 lon1 lat2 lon2 = Inr (PyFloat r))) \<and>
         (final_bearing_fp A lat1 lon1 lat2 lon2 = Inr (PyInt 1) \<or>
          (\<exists>r. final_bearing_fp A lat1 lon1 lat2 lon2 = Inr (PyFloat r))) \<and>
         (midpoint_fp A lat1 lon1 lat2 lon2 = Inr (PyInt 1) \<or>
          (\<exists>a b. midpoint_fp A lat1 lon1 lat2 lon2 = Inr (PyList [a, b]))) \<and>
         (intersection_fp A lat1 lon1 brng1 lat2 lon2 brng2 = Inr (PyInt 1) \<or>
          intersection_fp A lat1 lon1 brng1 lat2 lon2 brng2 = Inr (PyInt 0) \<or>
          (\<exists>a b. intersection_fp A lat1 lon1 brng1 lat2 lon2 brng2 = Inr (PyList [a, b]))) \<and>
         (rhumb_distance_fp A lat1 lon1 lat2 lon2 = Inr (PyInt 1) \<or>
          (\<exists>r. rhumb_distance_fp A lat1 lon1 lat2 lon2 = Inr (PyFloat r))) \<and>
         (rhumb_bearing_fp A lat1 lon1 lat2 lon2 = Inr (PyInt 1) \<or>
          (\<exists>r. rhumb_bearing_fp A lat1 lon1 lat2 lon2 = Inr (PyFloat r))) \<and>
         (rhumb_destination_point_fp A lat1 lon1 brng d = Inr (PyInt 1) \<or>
          (\<exists>a b. rhumb_destination_point_fp A lat1 lon1 brng d = Inr (PyList [a, b]))) \<and>
         (rhumb_midpoint_fp A lat1 lon1 lat2 lon2 = Inr (PyInt 1) \<or>
          (\<exists>a b. rhumb_midpoint_fp A lat1 lon1 lat2 lon2 = Inr (PyList [a, b]))) \<and>
         (destination_point_fp A lat1 lon1 brng d = Inr (PyInt 1) \<or>
          (\<exists>a b. destination_point_fp A lat1 lon1 brng d = Inr (PyList [a, b])))"
  using assms
  by (intro conjI distance_haversine_fp_cases(2) distance_sloc_fp_cases(2)
      initial_bearing_fp_cases(2) final_bearing_fp_cases(2) midpoint_fp_cases(2)
      intersection_fp_cases(2) rhumb_distance_fp_cases(2) rhumb_bearing_fp_cases(2)
      rhumb_destination_point_fp_cases(2) rhumb_midpoint_fp_cases(2)
      destination_point_fp_cases(2))

theorem valid_input_never_raises_witness:
  "(distance_sloc_fp round_up 0 0 0 0 = Inr (PyInt 1) \<or>
    (\<exists>r. distance_sloc_fp round_up 0 0 0 0 = Inr (PyFloat r))) \<and>
   (rhumb_bearing_fp exact 0 0 (- 90) 0 = Inr (PyInt 1) \<or>
    (\<exists>r. rhumb_bearing_fp exact 0 0 (- 90) 0 = Inr (PyFloat r))) \<and>
   (\<exists>a b. destination_point_fp exact 0 0 45 100 = Inr (PyList [a, b]))"
proof -
  have v: "- 90 \<le> (0::real)" "(0::real) \<le> 90" "- 180 \<le> (0::real)" "(0::real) \<le> 180"
    and s: "- 90 \<le> (- 90::real)" "(- 90::real) \<le> 90"
    by simp_all
  have 1: "distance_sloc_fp round_up 0 0 0 0 = Inr (PyInt 1) \<or>
    (\<exists>r. distance_sloc_fp round_up 0 0 0 0 = Inr (PyFloat r))"
    using valid_input_never_raises[OF v v, where A = round_up and ?brng1.0 = 0
      and ?brng2.0 = 0 and brng = 0 and d = 0]
    by (elim conjE)
  have e: "(rhumb_bearing_fp exact 0 0 (- 90) 0 = Inr (PyInt 1) \<or>
      (\<exists>r. rhumb_bearing_fp exact 0 0 (- 90) 0 = Inr (PyFloat r))) \<and>
    (destination_point_fp exact 0 0 45 100 = Inr (PyInt 1) \<or>
      (\<exists>a b. destination_point_fp exact 0 0 45 100 = Inr (PyList [a, b])))"
    using valid_input_never_raises[OF v s v(3,4), where A = exact and ?brng1.0 = 0
      and ?brng2.0 = 0 and brng = 45 and d = 100]
    by (elim conjE) (rule conjI)
  have "destination_point_fp exact 0 0 45 100 \<noteq> Inr (PyInt 1)"
    using destination_point_lon_range[of 0 0 45 100] by (auto simp: method_fp_exact)
  then show ?thesis using 1 e by simp
qed

text \<open>
  To the south pole \<^verbatim>\<open>tan(lat2/2 + pi/4)\<close> is \<open>0\<close> and \<^verbatim>\<open>math.log(0)\<close> raises.
\<close>

lemma rhumb_bearing_try_to_south_pole: "rhumb_bearing_try 0 0 (- 90) 0 = Inl ValueError"
  by (simp add: rhumb_bearing_try_def math_radians_def py_div_def math_log_def tan_45)

text \<open>
  Claim C2, as the specification states it, fails where a degeneracy is masked: the
  rhumb bearing from \<open>(0, 0)\<close> to the south pole \<open>(-90, 0)\<close> runs into \<^verbatim>\<open>math.log(0)\<close>,
  and the \<^verbatim>\<open>ValueError\<close> reaches the caller as the result \<open>1\<close>, one degree, where the
  bearing is due south.
\<close>

theorem rhumb_bearing_south_pole_returns_1:
  "rhumb_bearing_try 0 0 (- 90) 0 = Inl ValueError \<and> rhumb_bearing 0 0 (- 90) 0 = Inr (PyInt 1)"
  by (simp add: rhumb_bearing_def rhumb_bearing_try_to_south_pole)

section \<open>Round trip: destination point and haversine distance\<close>

lemma radians_degrees: "math_radians (math_degrees x) = x"
  by (simp add: math_radians_def math_degrees_def)

lemma sqrt_sum_squares_factor:
  fixes x y :: real
  assumes "x \<noteq> 0"
  shows "sqrt (x\<^sup>2 + y\<^sup>2) = \<bar>x\<bar> * sqrt (1 + (y / x)\<^sup>2)"
proof -
  have "x\<^sup>2 + y\<^sup>2 = x\<^sup>2 * (1 + (y / x)\<^sup>2)"
    using assms by (simp add: field_simps power2_eq_square)
  then show ?thesis by (simp add: real_sqrt_mult)
qed

lemma cos_arctan_times:
  fixes x y :: real
  assumes "x \<noteq> 0"
  shows "cos (arctan (y / x)) * sqrt (x\<^sup>2 + y\<^sup>2) = \<bar>x\<bar>"
proof -
  have pos: "0 < sqrt (1 + (y / x)\<^sup>2)"
    by (simp add: add_pos_nonneg)
  show ?thesis
    unfolding sqrt_sum_squares_factor[OF assms] cos_arctan using pos by simp
qed

text \<open>\<^verbatim>\<open>atan2(y, x)\<close> is an angle of the vector \<open>(x, y)\<close>, also when the vector is null.\<close>

lemma atan2_cos: "cos (math_atan2 y x) * sqrt (x\<^sup>2 + y\<^sup>2) = x"
proof -
  consider "0 < x" | "x < 0" | "x = 0"
    by linarith
  then show ?thesis
  proof cases
    case 1
    then show ?thesis using cos_arctan_times[of x y] by (simp add: math_atan2_def)
  next
    case 2
    then have "cos (math_atan2 y x) = - cos (arctan (y / x))"
      by (simp add: math_atan2_def)
    then show ?thesis using cos_arctan_times[of x y] 2 by simp
  next
    case 3
    then show ?thesis by (simp add: math_atan2_def)
  qed
qed

lemma atan2_sin_cos:
  assumes "0 \<le> u" "u \<le> pi / 2"
  shows "math_atan2 (sin u) (cos u) = u"
proof (cases "u = pi / 2")
  case True
  show ?thesis unfolding True by (simp add: math_atan2_def)
next
  case False
  then have u: "u < pi / 2" using assms by simp
  then have c: "0 < cos u" using assms by (intro cos_gt_zero_pi) auto
  have "arctan (tan u) = u"
    using assms u by (intro arctan_tan) auto
  then show ?thesis using c by (simp add: math_atan2_def tan_def)
qed

lemma cos_shift_2pi: "cos (x + 2 * pi * of_int n) = cos x"
proof -
  have "cos (2 * pi * of_int n) = 1" "sin (2 * pi * of_int n) = 0"
    using cos_int_2pin[of n] sin_int_2pin[of n] by (simp_all add: mult.assoc)
  then show ?thesis by (simp add: cos_add)
qed

text \<open>
  The two arguments of \<^verbatim>\<open>atan2\<close> in \<^verbatim>\<open>destination_point\<close> are the legs of a right
  triangle whose hypotenuse is \<open>cos lat1 * cos lat2\<close>.
\<close>

lemma destination_hypot:
  fixes p d t :: real
  defines "s \<equiv> sin p * cos d + cos p * sin d * cos t"
  shows "(cos d - sin p * s)\<^sup>2 + (sin t * sin d * cos p)\<^sup>2 = (cos p)\<^sup>2 * (1 - s\<^sup>2)"
proof -
  define u where "u = cos p * cos d - sin p * sin d * cos t"
  have x: "cos d - sin p * s = cos p * u"
  proof -
    have "cos d - sin p * s = cos d * (1 - (sin p)\<^sup>2) - sin p * cos p * sin d * cos t"
      unfolding s_def by (simp add: algebra_simps power2_eq_square)
    also have "1 - (sin p)\<^sup>2 = (cos p)\<^sup>2"
      by (simp add: cos_squared_eq)
    finally show ?thesis unfolding u_def by (simp add: algebra_simps power2_eq_square)
  qed
  have su: "s\<^sup>2 + u\<^sup>2 = (cos d)\<^sup>2 + (sin d)\<^sup>2 * (cos t)\<^sup>2"
  proof -
    have "s\<^sup>2 + u\<^sup>2 = ((sin p)\<^sup>2 + (cos p)\<^sup>2) * ((cos d)\<^sup>2 + (sin d * cos t)\<^sup>2)"
      unfolding s_def u_def
      using two_squares_product[of "sin p" "cos d" "cos p" "sin d * cos t"]
      by (simp only: mult.assoc)
    then show ?thesis by (simp add: power_mult_distrib)
  qed
  have alg: "U + A * D = 1 - S"
    if "A + B = 1" "C + D = 1" "S + U = C + D * B" for A B C D S U :: real
  proof -
    have "U + A * D = C + D * (A + B) - S"
      using that(3) by (simp add: algebra_simps)
    then show ?thesis using that(1,2) by simp
  qed
  have "u\<^sup>2 + (sin t)\<^sup>2 * (sin d)\<^sup>2 = 1 - s\<^sup>2"
    by (rule alg[OF sin_cos_squared_add[of t] _ su]) (simp add: add.commute)
  then have "(cos p)\<^sup>2 * (u\<^sup>2 + (sin t)\<^sup>2 * (sin d)\<^sup>2) = (cos p)\<^sup>2 * (1 - s\<^sup>2)"
    by (rule arg_cong)
  moreover have "(cos d - sin p * s)\<^sup>2 + (sin t * sin d * cos p)\<^sup>2 =
      (cos p)\<^sup>2 * (u\<^sup>2 + (sin t)\<^sup>2 * (sin d)\<^sup>2)"
    unfolding x by (simp only: power_mult_distrib distrib_left mult_ac)
  ultimately show ?thesis by (rule trans[rotated])
qed

text \<open>
  Hence the spherical law of cosines: the central angle between the start point and the
  destination has the cosine of the angular distance travelled.
\<close>

lemma destination_central_cos:
  fixes p d t :: real
  assumes "0 \<le> cos p"
  defines "s \<equiv> sin p * cos d + cos p * sin d * cos t"
  defines "dl \<equiv> math_atan2 (sin t * sin d * cos p) (cos d - sin p * sin (arcsin s))"
  shows "sin p * sin (arcsin s) + cos p * cos (arcsin s) * cos dl = cos d"
proof -
  have b: "- 1 \<le> s" "s \<le> 1"
    unfolding s_def by (rule asin_arg_bounds)+
  then have ss: "sin (arcsin s) = s" by simp
  have cs: "cos (arcsin s) = sqrt (1 - s\<^sup>2)"
    using b by (rule cos_arcsin)
  have nn: "0 \<le> 1 - s\<^sup>2"
    using b by (simp add: abs_square_le_1 abs_le_iff)
  let ?x = "cos d - sin p * s" and ?y = "sin t * sin d * cos p"
  have "sqrt (?x\<^sup>2 + ?y\<^sup>2) = sqrt ((cos p)\<^sup>2 * (1 - s\<^sup>2))"
    using destination_hypot[where p = p and d = d and t = t] unfolding s_def by simp
  also have "\<dots> = cos p * sqrt (1 - s\<^sup>2)"
    using assms(1) by (simp add: real_sqrt_mult)
  finally have h: "sqrt (?x\<^sup>2 + ?y\<^sup>2) = cos p * cos (arcsin s)"
    by (simp add: cs)
  have "cos dl * sqrt (?x\<^sup>2 + ?y\<^sup>2) = ?x"
    unfolding dl_def ss by (rule atan2_cos)
  then have "cos p * cos (arcsin s) * cos dl = ?x"
    unfolding h by (simp add: mult.commute)
  then show ?thesis unfolding ss by simp
qed

lemma cos_half_sq: "cos (u / 2) * cos (u / 2) = (1 + cos u) / (2::real)"
  using cos_double_cos[of "u / 2"] by (simp add: power2_eq_square)

text \<open>
  The \<^verbatim>\<open>try\<close> block of \<^verbatim>\<open>distance_haversine\<close> returns the central angle, in
  \<open>[0, pi]\<close>, between its two points.
\<close>

lemma haversine_try_central_angle:
  assumes "0 \<le> c" "c \<le> pi"
    and "sin (math_radians lat1) * sin (math_radians lat2) +
         cos (math_radians lat1) * cos (math_radians lat2) * cos (math_radians (lon2 - lon1))
         = cos c"
  shows "distance_haversine_try lat1 lon1 lat2 lon2 = Inr c"
proof -
  define a where "a = sin (math_radians (lat2 - lat1) / 2) * sin (math_radians (lat2 - lat1) / 2) +
              cos (math_radians lat1) * cos (math_radians lat2) *
              sin (math_radians (lon2 - lon1) / 2) * sin (math_radians (lon2 - lon1) / 2)"
  have "a = (1 - cos c) / 2"
    unfolding a_def radians_diff[of lat2 lat1] haversine_a_eq assms(3) ..
  then have a1: "a = sin (c / 2) * sin (c / 2)" and a2: "1 - a = cos (c / 2) * cos (c / 2)"
    by (simp_all add: sin_half_sq cos_half_sq field_simps)
  have s: "0 \<le> sin (c / 2)"
    using assms(1,2) by (intro sin_ge_zero) auto
  have k: "0 \<le> cos (c / 2)"
    using assms(1,2) by (intro cos_ge_zero) auto
  have sa: "math_sqrt a = Inr (sin (c / 2))"
    unfolding a1 math_sqrt_def using s by (simp add: not_less)
  have sb: "math_sqrt (1 - a) = Inr (cos (c / 2))"
    unfolding a2 math_sqrt_def using k by (simp add: not_less)
  have "math_atan2 (sin (c / 2)) (cos (c / 2)) = c / 2"
    using assms(1,2) by (intro atan2_sin_cos) auto
  then show ?thesis
    unfolding distance_haversine_try_def Let_def a_def[symmetric] sa sb by simp
qed

lemma degrees_lat_range:
  assumes "- (pi / 2) \<le> x" "x \<le> pi / 2"
  shows "- 90 \<le> math_degrees x" and "math_degrees x \<le> 90"
proof -
  have "(- (pi / 2)) * (180 / pi) \<le> x * (180 / pi)"
    using assms by (intro mult_right_mono) auto
  then show "- 90 \<le> math_degrees x" by (simp add: math_degrees_def)
  have "x * (180 / pi) \<le> (pi / 2) * (180 / pi)"
    using assms by (intro mult_right_mono) auto
  then show "math_degrees x \<le> 90" by (simp add: math_degrees_def)
qed

text \<open>
  In exact arithmetic the round trip is exact: for a valid point, any bearing and a
  distance \<open>d\<close> between \<open>0\<close> and half the circumference \<open>pi * R\<close>,
  \<^verbatim>\<open>destination_point\<close> returns a pair and \<^verbatim>\<open>distance_haversine\<close> from the point to that
  pair returns \<open>d\<close>. The formulas are right; where the interpreter does not recover \<open>d\<close>,
  a rounding has pushed an argument of \<^verbatim>\<open>asin\<close> or \<^verbatim>\<open>sqrt\<close> out of its domain.
\<close>

lemma destination_haversine_roundtrip_exact:
  assumes "- 90 \<le> lat1" "lat1 \<le> 90" "- 180 \<le> lon1" "lon1 \<le> 180"
    and "0 \<le> d" "d \<le> pi * R"
  shows "\<exists>lat2 lon2. destination_point lat1 lon1 brng d = Inr (PyList [lat2, lon2]) \<and>
                     distance_haversine lat1 lon1 lat2 lon2 = Inr (PyFloat d)"
proof -
  define p where "p = math_radians lat1"
  define l1 where "l1 = math_radians lon1"
  define t where "t = math_radians brng"
  define c where "c = d / R"
  define s where "s = sin p * cos c + cos p * sin c * cos t"
  define dl where "dl = math_atan2 (sin t * sin c * cos p) (cos c - sin p * sin (arcsin s))"
  define k where "k = \<lfloor>(l1 + dl + 3 * pi) / (2 * pi)\<rfloor>"
  define m where "m = l1 + dl + 3 * pi - 2 * pi * of_int k"
  have Rpos: "0 < R" by (simp add: R_def)
  have c: "0 \<le> c" "c \<le> pi"
    using assms(5,6) Rpos by (simp_all add: c_def field_simps)
  have b: "- 1 \<le> s" "s \<le> 1"
    unfolding s_def by (rule asin_arg_bounds)+
  have m: "0 \<le> m" "m < 2 * pi"
    unfolding m_def k_def using floor_mod_bounds[of "2 * pi" "l1 + dl + 3 * pi"] by simp_all
  have asin: "math_asin s = Inr (arcsin s)"
    using b by (simp add: math_asin_def)
  have "destination_point_try lat1 lon1 brng d = Inr (arcsin s, m - pi)"
    unfolding destination_point_try_def Let_def p_def[symmetric] l1_def[symmetric]
      t_def[symmetric] c_def[symmetric] s_def[symmetric] asin exn_bind_Inr
      dl_def[symmetric]
    by (simp add: py_mod_def m_def k_def)
  then have dest: "destination_point lat1 lon1 brng d =
      Inr (PyList [math_degrees (arcsin s), math_degrees (m - pi)])"
    using assms(1-4) by (simp add: destination_point_def)
  have lat2: "- 90 \<le> math_degrees (arcsin s)" "math_degrees (arcsin s) \<le> 90"
    using arcsin_bounded[OF b] by (simp_all add: degrees_lat_range)
  have lon2: "- 180 \<le> math_degrees (m - pi)" "math_degrees (m - pi) < 180"
    using degrees_lon_range[OF m] by simp_all
  have "math_radians (math_degrees (m - pi) - lon1) = dl + 2 * pi * of_int (1 - k)"
    unfolding radians_diff radians_degrees l1_def[symmetric] m_def
    by (simp add: algebra_simps)
  then have cl: "cos (math_radians (math_degrees (m - pi) - lon1)) = cos dl"
    by (simp only: cos_shift_2pi)
  have "sin p * sin (arcsin s) + cos p * cos (arcsin s) * cos dl = cos c"
    unfolding dl_def s_def
    by (rule destination_central_cos) (use cos_radians_nonneg[OF assms(1,2)] in \<open>simp add: p_def\<close>)
  then have "distance_haversine_try lat1 lon1 (math_degrees (arcsin s)) (math_degrees (m - pi)) = Inr c"
    by (intro haversine_try_central_angle c) (simp add: radians_degrees cl p_def)
  then have "distance_haversine lat1 lon1 (math_degrees (arcsin s)) (math_degrees (m - pi)) =
      Inr (PyFloat (R * c))"
    using assms(1-4) lat2 lon2 by (simp add: distance_haversine_def)
  moreover have "R * c = d"
    using Rpos by (simp add: c_def)
  ultimately show ?thesis using dest by auto
qed

end
